theory Spec2Isabelle
  imports Complex_Main
begin

section \<open>Projectile motion simulator: the trajectory engine\<close>

text \<open>
  A shallow embedding of \<^verbatim>\<open>projectile-motion-simulator.cpp\<close>: the class
  \<^verbatim>\<open>ProjectileSimulator\<close> with its two trajectory algorithms and its three metric
  queries.

  Arithmetic. The program computes in \<^verbatim>\<open>float\<close>. The embedding computes with real
  numbers: a \<^verbatim>\<open>float\<close> is a \<^typ>\<open>real\<close>, the operators are the exact ones, and
  \<^verbatim>\<open>sqrt\<close>, \<^verbatim>\<open>cos\<close>, \<^verbatim>\<open>sin\<close> are the real functions, so the rounding of the
  computed positions and velocities is not part of the embedding. Where the float
  arithmetic decides what the program does, and not only to how many digits, it is
  written out:
  \<^item> the time accumulator \<^verbatim>\<open>t += dt\<close> of the drag-free loop is rounded to binary32 at
    every step (\<open>binary32\<close>): how many samples the loop takes, and whether it ends at all,
    depends on it;
  \<^item> the constant \<^verbatim>\<open>PI\<close> is the binary32 value of its literal, which lies above \<open>\<pi>\<close>;
  \<^item> a division by zero. On the drag-free path the quotient is the total flight time,
    which the loop only compares with: it is an IEEE value (\<open>ieee_div\<close>), an infinity
    or a NaN when the gravity is zero. On the drag path the quotient enters the
    arithmetic: every division there is \<open>fdiv\<close>, and a run that divides by zero ends as
    \<open>NonFinite\<close>, holding the points stored up to there.

  A run that does not return is \<open>None\<close>.
\<close>

subsection \<open>Binary32 values\<close>

text \<open>
  The binary32 number nearest to a real \<open>x\<close>, ties to the even significand: with
  \<open>2\<^sup>e \<le> \<bar>x\<bar> < 2\<^sup>e\<^sup>+\<^sup>1\<close> the binary32 numbers around \<open>x\<close> are the multiples of
  \<open>2\<^sup>e\<^sup>-\<^sup>2\<^sup>3\<close>. (The normal range; the values rounded below lie between \<open>0.02\<close> and
  \<open>2\<^sup>1\<^sup>9\<close>.)
\<close>

definition binary32 :: "real \<Rightarrow> real" where
  "binary32 x =
     (if x = 0 then 0
      else (let e = \<lfloor>log 2 \<bar>x\<bar>\<rfloor>;
                ulp = 2 powr (of_int e - 23);
                m = x / ulp;
                f = \<lfloor>m\<rfloor>;
                d = m - of_int f;
                n = (if d < 1 / 2 then f
                     else if 1 / 2 < d then f + 1
                     else if even f then f else f + 1)
            in of_int n * ulp))"

text \<open>
  The value of a float division \<^verbatim>\<open>a / b\<close> that is only compared with afterwards: the
  quotient, or what IEEE gives for a zero divisor (taken as \<open>+0\<close>).
\<close>

datatype ieee = Finite real | PlusInfinity | MinusInfinity | NaN

definition ieee_div :: "real \<Rightarrow> real \<Rightarrow> ieee" where
  "ieee_div a b =
     (if b \<noteq> 0 then Finite (a / b)
      else if 0 < a then PlusInfinity
      else if a < 0 then MinusInfinity
      else NaN)"

text \<open>The comparison \<^verbatim>\<open>t <= totalTime\<close> of a finite \<open>t\<close> with such a value.\<close>

fun le_ieee :: "real \<Rightarrow> ieee \<Rightarrow> bool" where
  "le_ieee t (Finite r) = (t \<le> r)"
| "le_ieee t PlusInfinity = True"
| "le_ieee t MinusInfinity = False"
| "le_ieee t NaN = False"

subsection \<open>Data\<close>

text \<open>\<^verbatim>\<open>const float PI = 3.14159265f\<close>: the binary32 number 3.14159274101257324.\<close>

definition PI :: real where
  "PI = binary32 3.14159265"

record Vector2D =
  x_of :: real
  y_of :: real

record ProjectileData =
  initialVelocity :: real
  angle :: real
  gravity :: real
  airResistance :: bool
  dragCoefficient :: real
  mass :: real

text \<open>The default constructor of \<^verbatim>\<open>ProjectileData\<close>.\<close>

definition ProjectileData_default :: ProjectileData where
  "ProjectileData_default =
     \<lparr>initialVelocity = 50, angle = 45, gravity = 9.8,
      airResistance = False, dragCoefficient = 0.47, mass = 1\<rparr>"

record ProjectileSimulator =
  data :: ProjectileData
  trajectoryPoints :: "Vector2D list"

text \<open>The constructor \<^verbatim>\<open>ProjectileSimulator(const ProjectileData&)\<close>: the vector starts empty.\<close>

definition ProjectileSimulator_new :: "ProjectileData \<Rightarrow> ProjectileSimulator" where
  "ProjectileSimulator_new d = \<lparr>data = d, trajectoryPoints = []\<rparr>"

text \<open>
  The result of a run that returns: \<open>Done\<close> when every division of the drag path had a
  divisor other than zero, \<open>NonFinite\<close> when the drag path reached a division by zero.
  Neither is an exception of the program, which has none: \<open>NonFinite\<close> marks where the
  program goes on with an infinity or a NaN and the embedding stops.
\<close>

datatype 'a outcome = Done 'a | NonFinite 'a

fun stored :: "'a outcome \<Rightarrow> 'a" where
  "stored (Done a) = a"
| "stored (NonFinite a) = a"

definition fdiv :: "real \<Rightarrow> real \<Rightarrow> real option" where
  "fdiv a b = (if b = 0 then None else Some (a / b))"

subsection \<open>The drag-free path\<close>

definition analytical_dt :: real where
  "analytical_dt = 0.02"

text \<open>
  The loop \<^verbatim>\<open>for (float t = 0; t <= totalTime; t += dt)\<close> of \<^verbatim>\<open>calculateAnalytical\<close>,
  with the vector of points as an accumulator. \<^verbatim>\<open>t += dt\<close> adds the binary32 value of
  \<^verbatim>\<open>0.02f\<close> and rounds the sum to binary32. Nothing bounds the loop but its two tests,
  so it is a partial function: \<open>None\<close> when it does not return.
\<close>

partial_function (option) analytical_loop ::
    "real \<Rightarrow> real \<Rightarrow> real \<Rightarrow> ieee \<Rightarrow> real \<Rightarrow> Vector2D list \<Rightarrow> Vector2D list option" where
  "analytical_loop vx vy g totalTime t pts =
     (if le_ieee t totalTime then
        (let x = vx * t;
             y = vy * t - 0.5 * g * t * t
         in if y < 0 then Some pts
            else analytical_loop vx vy g totalTime (binary32 (t + binary32 analytical_dt))
                   (pts @ [\<lparr>x_of = x, y_of = y\<rparr>]))
      else Some pts)"

definition calculateAnalytical ::
    "ProjectileSimulator \<Rightarrow> ProjectileSimulator outcome option" where
  "calculateAnalytical s =
     (let angleRad = angle (data s) * PI / 180;
          vx = initialVelocity (data s) * cos angleRad;
          vy = initialVelocity (data s) * sin angleRad;
          totalTime = ieee_div (2 * vy) (gravity (data s))
      in case analytical_loop vx vy (gravity (data s)) totalTime 0 (trajectoryPoints s) of
           None \<Rightarrow> None
         | Some pts \<Rightarrow> Some (Done (s\<lparr>trajectoryPoints := pts\<rparr>)))"

subsection \<open>The drag path\<close>

definition numerical_dt :: real where
  "numerical_dt = 0.01"

definition AIR_DENSITY :: real where
  "AIR_DENSITY = 1.225"

definition CROSS_SECTION_AREA :: real where
  "CROSS_SECTION_AREA = 0.01"

text \<open>
  The drag accelerations of one iteration: the locals \<^verbatim>\<open>speed\<close>, \<^verbatim>\<open>dragForce\<close>,
  \<^verbatim>\<open>dragAccelX\<close> and \<^verbatim>\<open>dragAccelY\<close> of the loop body. The three divisions are
  evaluated in the order of the source; \<open>None\<close> is a division by zero.
\<close>

definition speed_of :: "real \<Rightarrow> real \<Rightarrow> real" where
  "speed_of vx vy = sqrt (vx * vx + vy * vy)"

definition dragForce_of :: "ProjectileData \<Rightarrow> real \<Rightarrow> real" where
  "dragForce_of d speed =
     0.5 * AIR_DENSITY * dragCoefficient d * CROSS_SECTION_AREA * speed * speed"

definition dragAccel :: "ProjectileData \<Rightarrow> real \<Rightarrow> real \<Rightarrow> (real \<times> real) option" where
  "dragAccel d vx vy =
     (let speed = speed_of vx vy;
          dragForce = dragForce_of d speed
      in if speed > 0.001 then
           (case fdiv dragForce (mass d) of
              None \<Rightarrow> None
            | Some fm \<Rightarrow>
                (case fdiv vx speed of
                   None \<Rightarrow> None
                 | Some ux \<Rightarrow>
                     (case fdiv vy speed of
                        None \<Rightarrow> None
                      | Some uy \<Rightarrow> Some (- fm * ux, - fm * uy))))
         else Some (0, 0))"

text \<open>
  The state update of one iteration, on the locals \<open>(x, y, vx, vy)\<close>: the velocity
  first, the position from the new velocity.
\<close>

definition numerical_step ::
    "ProjectileData \<Rightarrow> real \<times> real \<times> real \<times> real \<Rightarrow> (real \<times> real \<times> real \<times> real) option" where
  "numerical_step d st =
     (case st of (x, y, vx, vy) \<Rightarrow>
        (case dragAccel d vx vy of
           None \<Rightarrow> None
         | Some (dragAccelX, dragAccelY) \<Rightarrow>
             (let vx' = vx + dragAccelX * numerical_dt;
                  vy' = vy + (dragAccelY - gravity d) * numerical_dt;
                  x' = x + vx' * numerical_dt;
                  y' = y + vy' * numerical_dt
              in Some (x', y', vx', vy'))))"

text \<open>
  The loop \<^verbatim>\<open>while (y >= 0)\<close> of \<^verbatim>\<open>calculateNumerical\<close>: the point is appended
  first, the state is updated, and the size of the vector is tested last.
\<close>

function numerical_loop ::
    "ProjectileData \<Rightarrow> real \<times> real \<times> real \<times> real \<Rightarrow> Vector2D list \<Rightarrow> Vector2D list outcome" where
  "numerical_loop d (x, y, vx, vy) pts =
     (if y \<ge> 0 then
        (let pts' = pts @ [\<lparr>x_of = x, y_of = y\<rparr>]
         in case numerical_step d (x, y, vx, vy) of
              None \<Rightarrow> NonFinite pts'
            | Some st' \<Rightarrow>
                if length pts' > 10000 then Done pts'
                else numerical_loop d st' pts')
      else Done pts)"
  by pat_completeness auto
termination
  by (relation "measure (\<lambda>(d, st, pts). 10001 - length pts)") auto

declare numerical_loop.simps [simp del]

definition calculateNumerical :: "ProjectileSimulator \<Rightarrow> ProjectileSimulator outcome" where
  "calculateNumerical s =
     (let angleRad = angle (data s) * PI / 180;
          vx = initialVelocity (data s) * cos angleRad;
          vy = initialVelocity (data s) * sin angleRad
      in case numerical_loop (data s) (0, 0, vx, vy) (trajectoryPoints s) of
           Done pts \<Rightarrow> Done (s\<lparr>trajectoryPoints := pts\<rparr>)
         | NonFinite pts \<Rightarrow> NonFinite (s\<lparr>trajectoryPoints := pts\<rparr>))"

subsection \<open>The entry point and the metrics\<close>

definition calculateTrajectory ::
    "ProjectileSimulator \<Rightarrow> ProjectileSimulator outcome option" where
  "calculateTrajectory s =
     (let s0 = s\<lparr>trajectoryPoints := []\<rparr>
      in if \<not> airResistance (data s0) then calculateAnalytical s0
         else Some (calculateNumerical s0))"

definition getMaxHeight :: "ProjectileSimulator \<Rightarrow> real" where
  "getMaxHeight s =
     fold (\<lambda>point maxH. if y_of point > maxH then y_of point else maxH)
       (trajectoryPoints s) 0"

definition getRange :: "ProjectileSimulator \<Rightarrow> real" where
  "getRange s =
     (if trajectoryPoints s = [] then 0 else x_of (last (trajectoryPoints s)))"

definition getFlightTime :: "ProjectileSimulator \<Rightarrow> real" where
  "getFlightTime s =
     real (length (trajectoryPoints s)) * (if airResistance (data s) then 0.01 else 0.02)"

text \<open>
  The states a simulator object can be in: as constructed, or after a call of one of the
  three public methods that compute (\<^verbatim>\<open>calculateTrajectory\<close>, which the program calls,
  and the two paths themselves) that returned and divided by no zero. The object's data
  are private and set by the constructor only.
\<close>

inductive reachable :: "ProjectileSimulator \<Rightarrow> bool" where
  constructed: "reachable (ProjectileSimulator_new d)"
| calculated: "reachable s \<Longrightarrow> calculateTrajectory s = Some (Done s') \<Longrightarrow> reachable s'"
| analytical: "reachable s \<Longrightarrow> calculateAnalytical s = Some (Done s') \<Longrightarrow> reachable s'"
| numerical: "reachable s \<Longrightarrow> calculateNumerical s = Done s' \<Longrightarrow> reachable s'"

text \<open>
  The locals \<^verbatim>\<open>vx\<close> and \<^verbatim>\<open>vy\<close> of both paths: the components of the launch
  velocity.
\<close>

definition launch_vx :: "ProjectileData \<Rightarrow> real" where
  "launch_vx d = initialVelocity d * cos (angle d * PI / 180)"

definition launch_vy :: "ProjectileData \<Rightarrow> real" where
  "launch_vy d = initialVelocity d * sin (angle d * PI / 180)"

subsection \<open>The drag-free trajectory as claim C1 words it\<close>

text \<open>
  The samples of the claim: the times \<open>t\<close> from \<open>0\<close> in steps of \<open>dt = 0.02\<close>, added as
  the program's \<^verbatim>\<open>float\<close> adds them, and at each time the point
  \<open>(vx * t, vy * t - 1/2 * g * t\<^sup>2)\<close>. They are compared with \<open>calculateAnalytical\<close>
  below.
\<close>

definition spec_sample :: "real \<Rightarrow> real \<Rightarrow> real \<Rightarrow> real \<Rightarrow> Vector2D" where
  "spec_sample vx vy g t = \<lparr>x_of = vx * t, y_of = vy * t - 1 / 2 * g * t\<^sup>2\<rparr>"

definition sample_time :: "nat \<Rightarrow> real" where
  "sample_time k = ((\<lambda>t. binary32 (t + binary32 0.02)) ^^ k) 0"

subsection \<open>The integration step as claim C2 words it\<close>

text \<open>
  One step as the claim describes it: the drag accelerations are
  \<open>- (F / mass) * (v / speed)\<close> on each axis in every iteration, with no threshold on
  the speed. It is compared with \<open>numerical_step\<close> below.
\<close>

definition claimed_step ::
    "ProjectileData \<Rightarrow> real \<times> real \<times> real \<times> real \<Rightarrow> (real \<times> real \<times> real \<times> real) option" where
  "claimed_step d st =
     (case st of (x, y, vx, vy) \<Rightarrow>
        (let speed = sqrt (vx\<^sup>2 + vy\<^sup>2);
             F = 1 / 2 * 1.225 * dragCoefficient d * 0.01 * speed\<^sup>2
         in case fdiv F (mass d) of
              None \<Rightarrow> None
            | Some fm \<Rightarrow>
                (case fdiv vx speed of
                   None \<Rightarrow> None
                 | Some ux \<Rightarrow>
                     (case fdiv vy speed of
                        None \<Rightarrow> None
                      | Some uy \<Rightarrow>
                          (let ax = - fm * ux;
                               ay = - fm * uy;
                               vx' = vx + ax * 0.01;
                               vy' = vy + (ay - gravity d) * 0.01;
                               x' = x + vx' * 0.01;
                               y' = y + vy' * 0.01
                           in Some (x', y', vx', vy'))))))"

subsection \<open>Concrete launches\<close>

text \<open>The default parameters with air resistance switched on.\<close>

definition drag_launch :: ProjectileSimulator where
  "drag_launch = ProjectileSimulator_new (ProjectileData_default\<lparr>airResistance := True\<rparr>)"

text \<open>The default parameters with air resistance, launched horizontally at 0.0005 m/s.\<close>

definition slow_launch :: ProjectileSimulator where
  "slow_launch = ProjectileSimulator_new
     (ProjectileData_default\<lparr>initialVelocity := 0.0005, angle := 0, airResistance := True\<rparr>)"

text \<open>
  A heavy projectile launched straight up at 2000 m/s with air resistance: after 100 s
  of simulated time it is still rising.
\<close>

definition cap_launch :: ProjectileSimulator where
  "cap_launch = ProjectileSimulator_new
     \<lparr>initialVelocity = 2000, angle = 90, gravity = 9.8,
      airResistance = True, dragCoefficient = 0.47, mass = 10000\<rparr>"

text \<open>
  The invariant of that run at iteration \<open>k\<close>: above ground, no faster than at launch,
  and the vertical velocity has lost at most 0.109515 m/s per iteration.
\<close>

definition cap_inv :: "nat \<Rightarrow> real \<times> real \<times> real \<times> real \<Rightarrow> bool" where
  "cap_inv k st = (case st of (x, y, vx, vy) \<Rightarrow>
      0 \<le> y \<and> vx * vx + vy * vy \<le> 2000 * 2000 \<and> 1600 - real k * 0.109515 \<le> vy)"

text \<open>The default parameters launched horizontally, without and with air resistance.\<close>

definition flat_launch :: ProjectileSimulator where
  "flat_launch = ProjectileSimulator_new (ProjectileData_default\<lparr>angle := 0\<rparr>)"

definition flat_drag_launch :: ProjectileSimulator where
  "flat_drag_launch = ProjectileSimulator_new
     (ProjectileData_default\<lparr>angle := 0, airResistance := True\<rparr>)"

text \<open>The default parameters with air resistance, launched straight down at 100 km/s.\<close>

definition overshoot_launch :: ProjectileSimulator where
  "overshoot_launch = ProjectileSimulator_new
     (ProjectileData_default\<lparr>initialVelocity := 100000, angle := - 90, airResistance := True\<rparr>)"

text \<open>Launches with parameters the specification calls invalid.\<close>

definition still_launch :: ProjectileSimulator where
  "still_launch = ProjectileSimulator_new (ProjectileData_default\<lparr>initialVelocity := 0\<rparr>)"

definition invalid_launch :: ProjectileSimulator where
  "invalid_launch = ProjectileSimulator_new
     \<lparr>initialVelocity = - 50, angle = 45, gravity = - 9.8,
      airResistance = True, dragCoefficient = - 0.47, mass = - 1\<rparr>"

definition backward_launch :: ProjectileSimulator where
  "backward_launch = ProjectileSimulator_new (ProjectileData_default\<lparr>initialVelocity := - 50\<rparr>)"

definition weightless_backward_launch :: ProjectileSimulator where
  "weightless_backward_launch = ProjectileSimulator_new
     (ProjectileData_default\<lparr>initialVelocity := - 50, gravity := 0\<rparr>)"

text \<open>
  The condition under which the specification has the engine reject the parameters.
\<close>

definition spec_invalid_parameter :: "ProjectileData \<Rightarrow> bool" where
  "spec_invalid_parameter d \<longleftrightarrow>
     initialVelocity d \<le> 0 \<or> gravity d \<le> 0
     \<or> (airResistance d \<and> (mass d \<le> 0 \<or> dragCoefficient d \<le> 0))"



text \<open>The default parameters without gravity.\<close>

definition weightless_launch :: ProjectileSimulator where
  "weightless_launch = ProjectileSimulator_new (ProjectileData_default\<lparr>gravity := 0\<rparr>)"

subsection \<open>Binary32 rounding\<close>

lemma binary32_eval:
  assumes e: "2 powr (of_int e) \<le> \<bar>x\<bar>" "\<bar>x\<bar> < 2 powr (of_int e + 1)"
    and f: "of_int f \<le> x / 2 powr (of_int e - 23)" "x / 2 powr (of_int e - 23) < of_int f + 1"
    and n: "n = (if x / 2 powr (of_int e - 23) - of_int f < 1 / 2 then f
                 else if 1 / 2 < x / 2 powr (of_int e - 23) - of_int f then f + 1
                 else if even f then f else f + 1)"
  shows "binary32 x = of_int n * 2 powr (of_int e - 23)"
proof -
  have "0 < (2::real) powr (of_int e)"
    by simp
  then have pos: "0 < \<bar>x\<bar>"
    using e(1) by linarith
  then have x0: "x \<noteq> 0"
    by simp
  have le: "\<lfloor>log 2 \<bar>x\<bar>\<rfloor> = e"
    using e pos by (simp add: floor_log_eq_powr_iff)
  have fl: "\<lfloor>x / 2 powr (of_int e - 23)\<rfloor> = f"
    using f by (simp add: floor_eq_iff)
  show ?thesis
    unfolding binary32_def using x0 by (simp add: le Let_def fl n)
qed

lemma binary32_dt: "binary32 0.02 = 5368709 / 268435456"
proof -
  have p: "(2::real) powr (- 29) = 1 / 536870912"
    by (simp add: powr_minus divide_simps)
  have "binary32 0.02 = of_int 10737418 * 2 powr (of_int (- 6) - 23)"
    by (rule binary32_eval [where f = 10737418]) (simp_all add: p powr_minus divide_simps)
  then show ?thesis
    by (simp add: p)
qed

lemma PI_value: "PI = 13176795 / 4194304"
proof -
  have p: "(2::real) powr (- 22) = 1 / 4194304"
    by (simp add: powr_minus divide_simps)
  have "binary32 3.14159265 = of_int 13176795 * 2 powr (of_int 1 - 23)"
    by (rule binary32_eval [where f = 13176794]) (simp_all add: p)
  then show ?thesis
    by (simp add: p PI_def)
qed

text \<open>The first step of the accumulator: exact, since \<open>0.02f\<close> is a binary32 number.\<close>

lemma first_sample_time: "binary32 (0 + binary32 analytical_dt) = 5368709 / 268435456"
proof -
  have p: "(2::real) powr (- 29) = 1 / 536870912"
    by (simp add: powr_minus divide_simps)
  have "binary32 (5368709 / 268435456) = of_int 10737418 * 2 powr (of_int (- 6) - 23)"
    by (rule binary32_eval [where f = 10737418]) (simp_all add: p powr_minus divide_simps)
  then show ?thesis
    unfolding analytical_dt_def binary32_dt by (simp add: p)
qed

text \<open>At \<open>2\<^sup>1\<^sup>9\<close> the binary32 numbers are \<open>0.0625\<close> apart and the accumulator stops advancing.\<close>

lemma accumulator_stalls: "binary32 (524288 + binary32 analytical_dt) = 524288"
proof -
  have "binary32 (524288 + 5368709 / 268435456) = of_int 8388608 * 2 powr (of_int 19 - 23)"
    by (rule binary32_eval [where f = 8388608]) (simp_all add: powr_minus divide_simps)
  then show ?thesis
    unfolding analytical_dt_def binary32_dt by (simp add: powr_minus)
qed

text \<open>Rounding moves a number by at most half the distance of the binary32 numbers around it.\<close>

lemma binary32_error:
  assumes "x \<noteq> 0"
  shows "\<bar>binary32 x - x\<bar> \<le> 2 powr (of_int \<lfloor>log 2 \<bar>x\<bar>\<rfloor> - 23) / 2"
proof -
  define ulp :: real where "ulp = 2 powr (of_int \<lfloor>log 2 \<bar>x\<bar>\<rfloor> - 23)"
  define m where "m = x / ulp"
  define f where "f = \<lfloor>m\<rfloor>"
  define d where "d = m - of_int f"
  define n where "n = (if d < 1 / 2 then f else if 1 / 2 < d then f + 1
                       else if even f then f else f + 1)"
  have ulp: "0 < ulp"
    by (simp add: ulp_def)
  have d: "0 \<le> d" "d < 1"
    unfolding d_def f_def by linarith+
  have "\<bar>of_int n - m\<bar> \<le> 1 / 2"
    using d unfolding n_def d_def by (auto simp: abs_le_iff)
  then have a: "\<bar>of_int n - m\<bar> * ulp \<le> ulp / 2"
    using ulp by (simp add: field_simps)
  have "of_int n * ulp - x = (of_int n - m) * ulp"
    using ulp by (simp add: m_def algebra_simps)
  then have b: "\<bar>of_int n * ulp - x\<bar> = \<bar>of_int n - m\<bar> * ulp"
    using ulp by (simp add: abs_mult)
  have c: "binary32 x = of_int n * ulp"
    using assms unfolding binary32_def n_def d_def f_def m_def ulp_def by (simp add: Let_def)
  have "\<bar>binary32 x - x\<bar> \<le> ulp / 2"
    unfolding c b by (rule a)
  then show ?thesis
    unfolding ulp_def .
qed

lemma binary32_nonneg:
  assumes "0 \<le> x"
  shows "0 \<le> binary32 x"
proof (cases "x = 0")
  case True
  then show ?thesis by (simp add: binary32_def)
next
  case False
  define ulp :: real where "ulp = 2 powr (of_int \<lfloor>log 2 \<bar>x\<bar>\<rfloor> - 23)"
  define m where "m = x / ulp"
  define f where "f = \<lfloor>m\<rfloor>"
  define d where "d = m - of_int f"
  define n where "n = (if d < 1 / 2 then f else if 1 / 2 < d then f + 1
                       else if even f then f else f + 1)"
  have ulp: "0 < ulp"
    by (simp add: ulp_def)
  have "0 \<le> m"
    using assms ulp by (simp add: m_def)
  then have "0 \<le> f"
    by (simp add: f_def)
  then have "0 \<le> n"
    by (simp add: n_def)
  moreover have "binary32 x = of_int n * ulp"
    using False unfolding binary32_def n_def d_def f_def m_def ulp_def by (simp add: Let_def)
  ultimately show ?thesis
    using ulp by simp
qed

text \<open>
  Below \<open>2\<^sup>1\<^sup>9\<close> the binary32 numbers are at most \<open>0.03125\<close> apart, so a step of the
  accumulator advances it by at least \<open>0.004\<close>.
\<close>

lemma accumulator_advances:
  assumes "0 \<le> t" and "t + binary32 analytical_dt < 524288"
  shows "t + 0.004 \<le> binary32 (t + binary32 analytical_dt)"
proof -
  define x where "x = t + binary32 analytical_dt"
  have dt: "binary32 analytical_dt = 5368709 / 268435456"
    unfolding analytical_dt_def by (rule binary32_dt)
  have x: "0 < x" "x < 524288"
    using assms by (simp_all add: x_def dt)
  have "log 2 x < 19"
    using x by (simp add: log_less_iff)
  then have "\<lfloor>log 2 \<bar>x\<bar>\<rfloor> \<le> 18"
    using x by (simp add: floor_le_iff)
  then have "(2::real) powr (of_int \<lfloor>log 2 \<bar>x\<bar>\<rfloor> - 23) \<le> 2 powr (of_int 18 - 23)"
    by (intro powr_mono) simp_all
  also have "\<dots> = 1 / 32"
    by (simp add: powr_minus divide_simps)
  finally have "(2::real) powr (of_int \<lfloor>log 2 \<bar>x\<bar>\<rfloor> - 23) / 2 \<le> 1 / 64"
    by simp
  moreover have "\<bar>binary32 x - x\<bar> \<le> 2 powr (of_int \<lfloor>log 2 \<bar>x\<bar>\<rfloor> - 23) / 2"
    using x by (intro binary32_error) simp
  ultimately have "x - 1 / 64 \<le> binary32 x"
    by linarith
  then show ?thesis
    by (simp add: x_def dt)
qed

subsection \<open>The drag loop\<close>

lemma fdiv_None_iff: "fdiv a b = None \<longleftrightarrow> b = 0"
  by (simp add: fdiv_def)

lemma dragAccel_None_iff:
  "dragAccel d vx vy = None \<longleftrightarrow> speed_of vx vy > 0.001 \<and> mass d = 0"
  by (auto simp: dragAccel_def Let_def fdiv_def split: option.splits)

lemma numerical_step_None_iff:
  "numerical_step d (x, y, vx, vy) = None \<longleftrightarrow> speed_of vx vy > 0.001 \<and> mass d = 0"
  using dragAccel_None_iff [of d vx vy]
  by (auto simp: numerical_step_def Let_def split: option.splits prod.splits)

lemma numerical_loop_landed:
  "\<not> y \<ge> 0 \<Longrightarrow> numerical_loop d (x, y, vx, vy) pts = Done pts"
  by (simp add: numerical_loop.simps)

lemma numerical_loop_nonfinite:
  "y \<ge> 0 \<Longrightarrow> numerical_step d (x, y, vx, vy) = None \<Longrightarrow>
   numerical_loop d (x, y, vx, vy) pts = NonFinite (pts @ [\<lparr>x_of = x, y_of = y\<rparr>])"
  by (simp add: numerical_loop.simps)

lemma numerical_loop_capped:
  "y \<ge> 0 \<Longrightarrow> numerical_step d (x, y, vx, vy) = Some st' \<Longrightarrow> length pts \<ge> 10000 \<Longrightarrow>
   numerical_loop d (x, y, vx, vy) pts = Done (pts @ [\<lparr>x_of = x, y_of = y\<rparr>])"
  by (simp add: numerical_loop.simps)

lemma numerical_loop_continue:
  "y \<ge> 0 \<Longrightarrow> numerical_step d (x, y, vx, vy) = Some st' \<Longrightarrow> length pts < 10000 \<Longrightarrow>
   numerical_loop d (x, y, vx, vy) pts
     = numerical_loop d st' (pts @ [\<lparr>x_of = x, y_of = y\<rparr>])"
  by (simp add: numerical_loop.simps)

text \<open>What the loop appends: a list of points, all with \<open>y \<ge> 0\<close>, the first one
  the current position when the loop is entered.\<close>

lemma numerical_loop_shape:
  "\<exists>ys. stored (numerical_loop d (x, y, vx, vy) pts) = pts @ ys
        \<and> (\<forall>p \<in> set ys. y_of p \<ge> 0)
        \<and> (y \<ge> 0 \<longrightarrow> ys \<noteq> [] \<and> hd ys = \<lparr>x_of = x, y_of = y\<rparr>)
        \<and> (length pts \<le> 10000 \<longrightarrow> length (pts @ ys) \<le> 10001)"
proof (induction d "(x, y, vx, vy)" pts arbitrary: x y vx vy rule: numerical_loop.induct)
  case (1 d x y vx vy pts)
  let ?p = "\<lparr>x_of = x, y_of = y\<rparr>"
  show ?case
  proof (cases "y \<ge> 0")
    case False
    then show ?thesis
      by (simp add: numerical_loop_landed)
  next
    case True
    show ?thesis
    proof (cases "numerical_step d (x, y, vx, vy)")
      case None
      have "stored (numerical_loop d (x, y, vx, vy) pts) = pts @ [?p]"
        by (simp add: numerical_loop_nonfinite [OF True None])
      then show ?thesis
        using True by simp
    next
      case (Some st')
      obtain x' y' vx' vy' where st': "st' = (x', y', vx', vy')"
        by (cases st') auto
      show ?thesis
      proof (cases "length pts < 10000")
        case False
        then have "stored (numerical_loop d (x, y, vx, vy) pts) = pts @ [?p]"
          by (simp add: numerical_loop_capped [OF True Some])
        then show ?thesis
          using True by simp
      next
        case small: True
        have small': "\<not> 10000 < length (pts @ [?p])"
          using small by simp
        obtain ys where ys: "stored (numerical_loop d (x', y', vx', vy') (pts @ [?p])) = (pts @ [?p]) @ ys"
            and pos: "\<forall>p \<in> set ys. y_of p \<ge> 0"
            and len: "length (pts @ [?p]) \<le> 10000 \<longrightarrow> length ((pts @ [?p]) @ ys) \<le> 10001"
          using "1.hyps" [OF True refl Some [unfolded st'] small'] by auto
        have "stored (numerical_loop d (x, y, vx, vy) pts) = pts @ (?p # ys)"
          using numerical_loop_continue [OF True Some small] ys st' by simp
        moreover have "\<forall>p \<in> set (?p # ys). y_of p \<ge> 0"
          using pos True by simp
        moreover have "length (pts @ (?p # ys)) \<le> 10001"
          using len small by simp
        ultimately show ?thesis
          by (intro exI [of _ "?p # ys"]) simp
      qed
    qed
  qed
qed

lemma numerical_loop_total:
  assumes m: "mass d \<noteq> 0"
  shows "\<exists>r. numerical_loop d st pts = Done r"
  using m
proof (induction d st pts rule: numerical_loop.induct)
  case (1 d x y vx vy pts)
  show ?case
  proof (cases "y \<ge> 0")
    case False
    then show ?thesis
      by (simp add: numerical_loop_landed)
  next
    case True
    obtain st' where Some: "numerical_step d (x, y, vx, vy) = Some st'"
      using numerical_step_None_iff [of d x y vx vy] "1.prems" by auto
    show ?thesis
    proof (cases "length pts < 10000")
      case False
      then show ?thesis
        by (simp add: numerical_loop_capped [OF True Some])
    next
      case small: True
      have small': "\<not> 10000 < length (pts @ [\<lparr>x_of = x, y_of = y\<rparr>])"
        using small by simp
      show ?thesis
        using "1.IH" [OF True refl Some small' "1.prems"]
        by (simp add: numerical_loop_continue [OF True Some small])
    qed
  qed
qed

lemma calculateTrajectory_drag:
  "airResistance (data s) \<Longrightarrow>
   calculateTrajectory s = Some (calculateNumerical (s\<lparr>trajectoryPoints := []\<rparr>))"
  by (simp add: calculateTrajectory_def Let_def)

lemma calculateNumerical_stored:
  "trajectoryPoints (stored (calculateNumerical s)) =
     stored (numerical_loop (data s) (0, 0, launch_vx (data s), launch_vy (data s))
               (trajectoryPoints s))"
  by (cases "numerical_loop (data s)
               (0, 0, initialVelocity (data s) * cos (angle (data s) * PI / 180),
                initialVelocity (data s) * sin (angle (data s) * PI / 180))
               (trajectoryPoints s)")
     (simp_all add: calculateNumerical_def Let_def launch_vx_def launch_vy_def)

lemma calculateNumerical_Done:
  "numerical_loop (data s) (0, 0, launch_vx (data s), launch_vy (data s)) (trajectoryPoints s)
     = Done pts \<Longrightarrow>
   calculateNumerical s = Done (s\<lparr>trajectoryPoints := pts\<rparr>)"
  by (simp add: calculateNumerical_def Let_def launch_vx_def launch_vy_def)

lemma calculateNumerical_total:
  assumes "mass (data s) \<noteq> 0"
  shows "\<exists>s'. calculateNumerical s = Done s'"
proof -
  obtain pts where "numerical_loop (data s) (0, 0, launch_vx (data s), launch_vy (data s))
                      (trajectoryPoints s) = Done pts"
    using numerical_loop_total [OF assms] by blast
  then show ?thesis
    by (auto dest: calculateNumerical_Done)
qed

text \<open>The points a run of the drag path stores, started on an empty vector.\<close>

lemma drag_run_points:
  assumes "airResistance (data s)"
  shows "\<exists>r. calculateTrajectory s = Some r
           \<and> trajectoryPoints (stored r)
               = stored (numerical_loop (data s) (0, 0, launch_vx (data s), launch_vy (data s)) [])
           \<and> (mass (data s) \<noteq> 0 \<longrightarrow> (\<exists>s'. r = Done s'))"
proof -
  let ?s0 = "s\<lparr>trajectoryPoints := []\<rparr>"
  have "calculateTrajectory s = Some (calculateNumerical ?s0)"
    using assms by (rule calculateTrajectory_drag)
  moreover have "trajectoryPoints (stored (calculateNumerical ?s0))
      = stored (numerical_loop (data s) (0, 0, launch_vx (data s), launch_vy (data s)) [])"
    by (simp add: calculateNumerical_stored)
  moreover have "mass (data s) \<noteq> 0 \<longrightarrow> (\<exists>s'. calculateNumerical ?s0 = Done s')"
    using calculateNumerical_total [of ?s0] by simp
  ultimately show ?thesis
    by blast
qed

text \<open>
  Claim C10. Whatever the parameters (also with a vertical velocity that is zero or
  negative), the drag path stores at least one point and the first stored point is the
  origin \<open>(0, 0)\<close>: the loop is entered with \<open>y = 0\<close> and appends the current position
  before it updates the state. This holds for the points stored up to a division by zero
  as well; with a mass other than zero the run divides by no zero.
\<close>

theorem C10_drag_first_point_is_origin:
  assumes "airResistance (data s)"
  shows "\<exists>r. calculateTrajectory s = Some r
           \<and> trajectoryPoints (stored r) \<noteq> []
           \<and> hd (trajectoryPoints (stored r)) = \<lparr>x_of = 0, y_of = 0\<rparr>
           \<and> (mass (data s) \<noteq> 0 \<longrightarrow> (\<exists>s'. r = Done s'))"
proof -
  obtain ys where "stored (numerical_loop (data s)
                     (0, 0, launch_vx (data s), launch_vy (data s)) []) = [] @ ys"
      and "(0::real) \<ge> 0 \<longrightarrow> ys \<noteq> [] \<and> hd ys = \<lparr>x_of = 0, y_of = 0\<rparr>"
    using numerical_loop_shape [of "data s" 0 0 "launch_vx (data s)" "launch_vy (data s)" "[]"]
    by blast
  then show ?thesis
    using drag_run_points [OF assms] by auto
qed

theorem C10_drag_first_point_is_origin_witness:
  "airResistance (data drag_launch)
   \<and> (\<exists>s'. calculateTrajectory drag_launch = Some (Done s')
          \<and> trajectoryPoints s' \<noteq> []
          \<and> hd (trajectoryPoints s') = \<lparr>x_of = 0, y_of = 0\<rparr>)"
proof -
  have air: "airResistance (data drag_launch)"
    by (simp add: drag_launch_def ProjectileSimulator_new_def)
  have m: "mass (data drag_launch) \<noteq> 0"
    by (simp add: drag_launch_def ProjectileSimulator_new_def ProjectileData_default_def)
  show ?thesis
    using C10_drag_first_point_is_origin [OF air] air m by auto
qed

lemma drag_points_nonneg:
  assumes "airResistance (data s)" and "calculateTrajectory s = Some r"
    and "p \<in> set (trajectoryPoints (stored r))"
  shows "y_of p \<ge> 0"
  using numerical_loop_shape [of "data s" 0 0 "launch_vx (data s)" "launch_vy (data s)" "[]"]
    drag_run_points [OF assms(1)] assms(2,3)
  by auto

lemma drag_points_length:
  assumes "airResistance (data s)" and "calculateTrajectory s = Some r"
  shows "length (trajectoryPoints (stored r)) \<le> 10001"
  using numerical_loop_shape [of "data s" 0 0 "launch_vx (data s)" "launch_vy (data s)" "[]"]
    drag_run_points [OF assms(1)] assms(2)
  by auto

lemma drag_launch_facts:
  "airResistance (data drag_launch)" "mass (data drag_launch) \<noteq> 0"
  by (simp_all add: drag_launch_def ProjectileSimulator_new_def ProjectileData_default_def)

subsection \<open>One integration step\<close>

lemma sqrt_of_square: "0 \<le> a \<Longrightarrow> sqrt (a * a) = a"
  by simp

lemma speed_of_horizontal: "0 \<le> vx \<Longrightarrow> speed_of vx 0 = vx"
  by (simp add: speed_of_def)

lemma speed_of_3_4: "speed_of 3 4 = 5"
proof -
  have "sqrt (5 * 5) = (5 :: real)"
    by (rule sqrt_of_square) simp
  then show ?thesis
    by (simp add: speed_of_def)
qed

lemma slow_first_state:
  "initialVelocity (data slow_launch) * cos (angle (data slow_launch) * PI / 180) = 0.0005
   \<and> initialVelocity (data slow_launch) * sin (angle (data slow_launch) * PI / 180) = 0"
  by (simp add: slow_launch_def ProjectileSimulator_new_def ProjectileData_default_def)

lemma slow_code: "numerical_step (data slow_launch) (0, 0, 0.0005, 0) = Some (0.000005, -0.00098, 0.0005, -0.098)"
  by (simp add: numerical_step_def dragAccel_def speed_of_horizontal Let_def numerical_dt_def
      slow_launch_def ProjectileSimulator_new_def ProjectileData_default_def)

lemma claimed_step_horizontal:
  assumes "0 < vx" and "mass d \<noteq> 0"
  shows "claimed_step d (x, y, vx, 0) =
           Some (x + (vx - 1 / 2 * 1.225 * dragCoefficient d * 0.01 * vx\<^sup>2 / mass d * 0.01) * 0.01,
                 y - gravity d * 0.01 * 0.01,
                 vx - 1 / 2 * 1.225 * dragCoefficient d * 0.01 * vx\<^sup>2 / mass d * 0.01,
                 - gravity d * 0.01)"
  using assms by (simp add: claimed_step_def fdiv_def Let_def)

lemma slow_claim: "claimed_step (data slow_launch) (0, 0, 0.0005, 0)
    = Some (0.00000499999992803125, -0.00098, 0.000499999992803125, -0.098)"
proof -
  have "(0 :: real) < 0.0005" and "mass (data slow_launch) \<noteq> 0"
    by (simp_all add: slow_launch_def ProjectileSimulator_new_def ProjectileData_default_def)
  from claimed_step_horizontal [OF this, of 0 0] show ?thesis
    by (simp add: power2_eq_square
        slow_launch_def ProjectileSimulator_new_def ProjectileData_default_def)
qed

text \<open>
  Claim C2, as stated, at the first iteration of \<open>slow_launch\<close>. The launch is valid
  (velocity, gravity, mass and drag coefficient are positive); its first state has
  \<open>vx = 0.0005\<close> and \<open>vy = 0\<close>, so the speed is \<open>0.0005\<close>. The program finds the speed
  not above \<open>0.001\<close> and applies no drag: \<open>vx\<close> stays \<open>0.0005\<close>. The claim's formula
  gives the drag acceleration \<open>- F / mass\<close> on the x axis, which is not zero, and another
  \<open>vx\<close>.
\<close>

theorem C2_counterexample:
  "initialVelocity (data slow_launch) * cos (angle (data slow_launch) * PI / 180) = 0.0005
   \<and> initialVelocity (data slow_launch) * sin (angle (data slow_launch) * PI / 180) = 0
   \<and> numerical_step (data slow_launch) (0, 0, 0.0005, 0)
       = Some (0.000005, -0.00098, 0.0005, -0.098)
   \<and> claimed_step (data slow_launch) (0, 0, 0.0005, 0)
       = Some (0.00000499999992803125, -0.00098, 0.000499999992803125, -0.098)
   \<and> numerical_step (data slow_launch) (0, 0, 0.0005, 0)
       \<noteq> claimed_step (data slow_launch) (0, 0, 0.0005, 0)"
  using slow_first_state slow_code slow_claim by simp

text \<open>
  Claim C2, amended. In every iteration of the drag path, with the fixed step
  \<open>dt = 0.01\<close>: the speed is \<open>sqrt (vx\<^sup>2 + vy\<^sup>2)\<close>, the drag force is
  \<open>F = 1/2 * 1.225 * Cd * 0.01 * speed\<^sup>2\<close>, the drag accelerations are
  \<open>- (F / mass) * (v / speed)\<close> on each axis when the speed is above \<open>0.001\<close> and zero
  otherwise, the velocity is updated first (\<open>vx += ax * dt\<close>, \<open>vy += (ay - g) * dt\<close>)
  and the position second, from the new velocity (\<open>x += vx * dt\<close>, \<open>y += vy * dt\<close>).
  The hypothesis excludes the division by a zero mass.
\<close>

theorem C2_drag_step:
  assumes "speed_of vx vy > 0.001 \<longrightarrow> mass d \<noteq> 0"
  shows "numerical_step d (x, y, vx, vy) =
     (let speed = sqrt (vx\<^sup>2 + vy\<^sup>2);
          F = 1 / 2 * 1.225 * dragCoefficient d * 0.01 * speed\<^sup>2;
          ax = (if speed > 0.001 then - (F / mass d) * (vx / speed) else 0);
          ay = (if speed > 0.001 then - (F / mass d) * (vy / speed) else 0);
          vx' = vx + ax * 0.01;
          vy' = vy + (ay - gravity d) * 0.01;
          x' = x + vx' * 0.01;
          y' = y + vy' * 0.01
      in Some (x', y', vx', vy'))"
proof (cases "speed_of vx vy > 0.001")
  case True
  then have m: "mass d \<noteq> 0"
    using assms by simp
  have s: "sqrt (vx\<^sup>2 + vy\<^sup>2) = speed_of vx vy"
    by (simp add: speed_of_def power2_eq_square)
  show ?thesis
    unfolding s using True m
    by (simp add: numerical_step_def dragAccel_def fdiv_def Let_def dragForce_of_def
        AIR_DENSITY_def CROSS_SECTION_AREA_def numerical_dt_def power2_eq_square)
next
  case False
  have s: "sqrt (vx\<^sup>2 + vy\<^sup>2) = speed_of vx vy"
    by (simp add: speed_of_def power2_eq_square)
  show ?thesis
    unfolding s using False
    by (simp add: numerical_step_def dragAccel_def Let_def numerical_dt_def)
qed

theorem C2_drag_step_witness:
  "mass (data drag_launch) \<noteq> 0
   \<and> numerical_step (data drag_launch) (0, 0, 3, 4)
       = Some (0.029995681875, 0.0390142425, 2.9995681875, 3.90142425)"
proof -
  have m: "mass (data drag_launch) \<noteq> 0"
    by (simp add: drag_launch_def ProjectileSimulator_new_def ProjectileData_default_def)
  have s: "sqrt (3\<^sup>2 + 4\<^sup>2) = (5 :: real)"
    using speed_of_3_4 by (simp add: speed_of_def power2_eq_square)
  have "speed_of 3 4 > 0.001 \<longrightarrow> mass (data drag_launch) \<noteq> 0"
    using m by simp
  from C2_drag_step [OF this, of 0 0] show ?thesis
    unfolding s using m
    by (simp add: drag_launch_def ProjectileSimulator_new_def ProjectileData_default_def Let_def)
qed

text \<open>
  Claim C8. In every iteration of the drag path the two divisions by the speed are
  evaluated only when the speed is above \<open>0.001\<close>, where the divisor is not zero; at a
  speed of \<open>0.001\<close> or below both drag accelerations are zero and nothing is divided
  (not even by a zero mass). So a step divides by zero only when the mass is zero, never
  through the speed.
\<close>

theorem C8_speed_division_guarded:
  "(\<not> speed_of vx vy > 0.001 \<longrightarrow> dragAccel d vx vy = Some (0, 0))
   \<and> (speed_of vx vy > 0.001 \<longrightarrow>
        fdiv vx (speed_of vx vy) = Some (vx / speed_of vx vy)
      \<and> fdiv vy (speed_of vx vy) = Some (vy / speed_of vx vy))
   \<and> (dragAccel d vx vy = None \<longleftrightarrow> speed_of vx vy > 0.001 \<and> mass d = 0)
   \<and> (numerical_step d (x, y, vx, vy) = None \<longleftrightarrow> speed_of vx vy > 0.001 \<and> mass d = 0)"
  using dragAccel_None_iff [of d vx vy] numerical_step_None_iff [of d x y vx vy]
  by (simp add: dragAccel_def fdiv_def)

theorem C8_speed_division_guarded_witness:
  "\<not> speed_of 0 0 > 0.001
   \<and> dragAccel (data drag_launch\<lparr>mass := 0\<rparr>) 0 0 = Some (0, 0)
   \<and> speed_of 3 4 > 0.001
   \<and> fdiv 3 (speed_of 3 4) = Some (3 / 5)
   \<and> fdiv 4 (speed_of 3 4) = Some (4 / 5)
   \<and> numerical_step (data drag_launch) (0, 0, 3, 4) \<noteq> None"
proof -
  have z: "\<not> speed_of 0 0 > 0.001"
    by (simp add: speed_of_def)
  have a: "speed_of 3 4 > 0.001"
    by (simp add: speed_of_3_4)
  show ?thesis
    using C8_speed_division_guarded [of 0 0 "data drag_launch\<lparr>mass := 0\<rparr>" 0 0]
      C8_speed_division_guarded [of 3 4 "data drag_launch" 0 0] z a drag_launch_facts(2)
    by (simp add: speed_of_3_4)
qed

subsection \<open>The stored points of the drag path\<close>

text \<open>
  Claim C4, as stated: some valid launch with drag ends with a stored point below ground.
  No launch does: a point is appended right after the test \<open>y \<ge> 0\<close> succeeded on it.
\<close>

theorem C4_counterexample:
  "\<not> (\<exists>s s'. airResistance (data s) \<and> calculateTrajectory s = Some (Done s')
            \<and> trajectoryPoints s' \<noteq> [] \<and> y_of (last (trajectoryPoints s')) < 0)"
proof
  assume "\<exists>s s'. airResistance (data s) \<and> calculateTrajectory s = Some (Done s')
            \<and> trajectoryPoints s' \<noteq> [] \<and> y_of (last (trajectoryPoints s')) < 0"
  then obtain s s' where air: "airResistance (data s)"
      and run: "calculateTrajectory s = Some (Done s')"
      and ne: "trajectoryPoints s' \<noteq> []"
      and neg: "y_of (last (trajectoryPoints s')) < 0"
    by blast
  have "last (trajectoryPoints s') \<in> set (trajectoryPoints (stored (Done s')))"
    using ne by simp
  then have "y_of (last (trajectoryPoints s')) \<ge> 0"
    by (rule drag_points_nonneg [OF air run])
  then show False
    using neg by simp
qed

text \<open>
  Claim C4, amended. The loop of the drag path tests \<open>y \<ge> 0\<close> at the top of each
  iteration, before it appends: entered with \<open>y < 0\<close> it stops and stores nothing more,
  so every stored point of a drag trajectory has \<open>y \<ge> 0\<close> and the state that went below
  ground is not stored.
\<close>

theorem C4_drag_stored_points_not_below_ground:
  "(y < 0 \<longrightarrow> numerical_loop d (x, y, vx, vy) pts = Done pts)
   \<and> (airResistance (data s) \<longrightarrow>
        (\<exists>r. calculateTrajectory s = Some r
            \<and> (\<forall>p \<in> set (trajectoryPoints (stored r)). y_of p \<ge> 0)))"
proof (intro conjI impI)
  assume "y < 0"
  then show "numerical_loop d (x, y, vx, vy) pts = Done pts"
    by (simp add: numerical_loop_landed)
next
  assume air: "airResistance (data s)"
  obtain r where r: "calculateTrajectory s = Some r"
    using drag_run_points [OF air] by blast
  then have "\<forall>p \<in> set (trajectoryPoints (stored r)). y_of p \<ge> 0"
    using drag_points_nonneg [OF air r] by blast
  then show "\<exists>r. calculateTrajectory s = Some r
            \<and> (\<forall>p \<in> set (trajectoryPoints (stored r)). y_of p \<ge> 0)"
    using r by blast
qed

theorem C4_drag_stored_points_not_below_ground_witness:
  "(- 1 :: real) < 0
   \<and> numerical_loop (data drag_launch) (0, - 1, 0, 0) [] = Done []
   \<and> airResistance (data drag_launch)
   \<and> (\<exists>r. calculateTrajectory drag_launch = Some r
          \<and> list_all (\<lambda>p. y_of p \<ge> 0) (trajectoryPoints (stored r)))"
  using C4_drag_stored_points_not_below_ground
          [of "- 1" "data drag_launch" 0 0 0 "[]" drag_launch]
        drag_launch_facts(1)
  by (simp add: list_all_iff)

subsection \<open>The cap on the number of samples\<close>

text \<open>A loop whose states stay above ground for 10001 iterations stores 10001 points.\<close>

lemma numerical_loop_reaches_cap:
  assumes above: "\<And>k x y vx vy. I k (x, y, vx, vy) \<Longrightarrow> y \<ge> 0"
    and step: "\<And>k st. k \<le> 10000 \<Longrightarrow> I k st \<Longrightarrow>
                 \<exists>st'. numerical_step d st = Some st' \<and> I (Suc k) st'"
  shows "I (length pts) st \<Longrightarrow> length pts \<le> 10000 \<Longrightarrow>
         \<exists>ys. numerical_loop d st pts = Done (pts @ ys) \<and> length (pts @ ys) = 10001"
proof (induction n \<equiv> "10000 - length pts" arbitrary: st pts)
  case 0
  obtain x y vx vy where st: "st = (x, y, vx, vy)"
    by (cases st) auto
  have y: "y \<ge> 0"
    using above 0 st by blast
  obtain st' where s: "numerical_step d (x, y, vx, vy) = Some st'"
    using step [of "length pts" st] 0 st by auto
  have len: "length pts = 10000"
    using 0 by simp
  show ?case
    using numerical_loop_capped [OF y s, of pts] len by (simp add: st)
next
  case (Suc n)
  obtain x y vx vy where st: "st = (x, y, vx, vy)"
    by (cases st) auto
  have y: "y \<ge> 0"
    using above Suc.prems st by blast
  obtain st' where s: "numerical_step d (x, y, vx, vy) = Some st'"
      and I': "I (Suc (length pts)) st'"
    using step [of "length pts" st] Suc.prems st by auto
  have small: "length pts < 10000"
    using Suc.hyps(2) by simp
  let ?pts' = "pts @ [\<lparr>x_of = x, y_of = y\<rparr>]"
  have "\<exists>ys. numerical_loop d st' ?pts' = Done (?pts' @ ys) \<and> length (?pts' @ ys) = 10001"
  proof (rule Suc.hyps(1))
    show "n = 10000 - length ?pts'"
      using Suc.hyps(2) by simp
    show "I (length ?pts') st'"
      using I' by simp
    show "length ?pts' \<le> 10000"
      using small by simp
  qed
  then obtain ys where "numerical_loop d st' ?pts' = Done (?pts' @ ys)"
      and "length (?pts' @ ys) = 10001"
    by blast
  then show ?case
    using numerical_loop_continue [OF y s small]
    by (intro exI [of _ "\<lparr>x_of = x, y_of = y\<rparr> # ys"]) (simp add: st)
qed

lemma dragAccel_above:
  assumes "speed_of vx vy > 0.001" and "mass d \<noteq> 0"
  shows "dragAccel d vx vy =
           Some (- (dragForce_of d (speed_of vx vy) / mass d) * (vx / speed_of vx vy),
                 - (dragForce_of d (speed_of vx vy) / mass d) * (vy / speed_of vx vy))"
  using assms by (simp add: dragAccel_def fdiv_def Let_def)

lemma speed_of_ge_vy: "vy \<le> speed_of vx vy"
proof -
  have "vy \<le> \<bar>vy\<bar>" by simp
  also have "\<bar>vy\<bar> = sqrt (vy * vy)" by simp
  also have "\<dots> \<le> sqrt (vx * vx + vy * vy)"
    by (rule real_sqrt_le_mono) simp
  finally show ?thesis by (simp add: speed_of_def)
qed

lemma speed_of_le:
  assumes "vx * vx + vy * vy \<le> S * S" and "0 \<le> S"
  shows "speed_of vx vy \<le> S"
proof -
  have "sqrt (vx * vx + vy * vy) \<le> sqrt (S * S)"
    using assms(1) by (rule real_sqrt_le_mono)
  then show ?thesis
    using assms(2) by (simp add: speed_of_def)
qed

lemma numerical_step_Some:
  assumes "dragAccel d vx vy = Some (ax, ay)"
  shows "numerical_step d (x, y, vx, vy) =
           Some (x + (vx + ax * numerical_dt) * numerical_dt,
                 y + (vy + (ay - gravity d) * numerical_dt) * numerical_dt,
                 vx + ax * numerical_dt,
                 vy + (ay - gravity d) * numerical_dt)"
  using assms by (simp add: numerical_step_def Let_def)

lemma cap_step:
  assumes k: "k \<le> 10000" and inv: "cap_inv k st"
  shows "\<exists>st'. numerical_step (data cap_launch) st = Some st' \<and> cap_inv (Suc k) st'"
proof -
  obtain x y vx vy where st: "st = (x, y, vx, vy)"
    by (cases st) auto
  define s where "s = speed_of vx vy"
  define kap :: real where "kap = 0.000000287875"
  have y: "0 \<le> y" and sq: "vx * vx + vy * vy \<le> 2000 * 2000"
      and lo: "1600 - real k * 0.109515 \<le> vy"
    using inv by (simp_all add: cap_inv_def st)
  have vy: "504 \<le> vy" using lo k by simp
  have s_ge: "vy \<le> s" unfolding s_def by (rule speed_of_ge_vy)
  have s_le: "s \<le> 2000" unfolding s_def by (rule speed_of_le [OF sq]) simp
  have s_pos: "0 < s" using vy s_ge by simp
  have guard: "speed_of vx vy > 0.001" using vy s_ge by (simp add: s_def)
  have acc: "dragAccel (data cap_launch) vx vy = Some (- (kap * s * vx), - (kap * s * vy))"
    using s_pos
    by (simp add: dragAccel_above [OF guard] cap_launch_def ProjectileSimulator_new_def
        dragForce_of_def AIR_DENSITY_def CROSS_SECTION_AREA_def s_def [symmetric] kap_def)
  define f where "f = 1 - kap * s * 0.01"
  define vx' where "vx' = f * vx"
  define vy' where "vy' = f * vy - 0.098"
  have stp: "numerical_step (data cap_launch) st
               = Some (x + vx' * 0.01, y + vy' * 0.01, vx', vy')"
    unfolding st numerical_step_Some [OF acc]
    by (simp add: numerical_dt_def vx'_def vy'_def f_def
        cap_launch_def ProjectileSimulator_new_def algebra_simps)
  have f0: "0 \<le> f" and f1: "f \<le> 1"
    using s_pos s_le by (simp_all add: f_def kap_def)
  have "s * vy \<le> 2000 * 2000"
    using s_le s_ge s_pos vy by (intro mult_mono) simp_all
  then have drop: "vy - 0.109515 \<le> vy'"
    by (simp add: vy'_def f_def kap_def algebra_simps)
  have rk: "real k \<le> 10000" using k by simp
  have suc: "real (Suc k) * 0.109515 = real k * 0.109515 + 0.109515"
    by (simp add: algebra_simps)
  have lo': "1600 - real (Suc k) * 0.109515 \<le> vy'"
    unfolding suc using drop lo by linarith
  have "real k * 0.109515 \<le> 10000 * 0.109515"
    using rk by (intro mult_right_mono) simp_all
  then have vy'_pos: "0 \<le> vy'"
    using drop lo by simp
  have "f * vy \<le> 1 * vy"
    using f1 vy by (intro mult_right_mono) simp_all
  then have vy'_le: "vy' \<le> vy" by (simp add: vy'_def)
  have a: "vy' * vy' \<le> vy * vy"
    using vy'_pos vy'_le by (intro mult_mono) simp_all
  have "f * f \<le> 1 * 1"
    using f0 f1 by (intro mult_mono) simp_all
  then have "(f * f) * (vx * vx) \<le> 1 * (vx * vx)"
    by (intro mult_right_mono) simp_all
  then have b: "vx' * vx' \<le> vx * vx"
    by (simp add: vx'_def algebra_simps)
  have sq': "vx' * vx' + vy' * vy' \<le> 2000 * 2000"
    using a b sq by linarith
  have y': "0 \<le> y + vy' * 0.01"
    using y vy'_pos by simp
  show ?thesis
    using stp y' sq' lo' by (simp add: cap_inv_def)
qed

lemma sin_right_angle: "0.8 \<le> sin (90 * PI / 180)"
proof -
  define a :: real where "a = 90 * PI / 180"
  have a: "a = 13176795 / 8388608"
    by (simp add: a_def PI_value)
  have pos: "0 < sin a"
    by (rule sin_gt_zero_02) (simp_all add: a)
  have "\<bar>cos a\<bar> = \<bar>sin (pi / 2 - a)\<bar>"
    by (simp add: cos_sin_eq)
  also have "\<dots> \<le> \<bar>pi / 2 - a\<bar>"
    by (rule abs_sin_x_le_abs_x)
  finally have "\<bar>cos a\<bar> \<le> \<bar>pi / 2 - a\<bar>" .
  moreover have "pi / 2 - a \<le> 0.6"
    using pi_half_less_two by (simp add: a)
  moreover have "- 0.6 \<le> pi / 2 - a"
    using pi_ge_two by (simp add: a)
  ultimately have c: "\<bar>cos a\<bar> \<le> 0.6"
    by linarith
  have "cos a * cos a = \<bar>cos a\<bar> * \<bar>cos a\<bar>"
    by simp
  also have "\<dots> \<le> 0.6 * 0.6"
    using c by (intro mult_mono) simp_all
  finally have c2: "cos a * cos a \<le> 0.36"
    by simp
  have "sin a * sin a = 1 - cos a * cos a"
    using sin_cos_squared_add3 [of a] by linarith
  then have s2: "0.8 * 0.8 \<le> sin a * sin a"
    using c2 by simp
  have "0.8 \<le> sin a"
  proof (rule ccontr)
    assume "\<not> 0.8 \<le> sin a"
    then have "sin a < 0.8" by simp
    then have "sin a * sin a < 0.8 * 0.8"
      using pos by (intro mult_strict_mono) simp_all
    then show False
      using s2 by simp
  qed
  then show ?thesis
    by (simp add: a_def)
qed

lemma launch_speed_square:
  "(v * cos t) * (v * cos t) + (v * sin t) * (v * sin t) = v * (v :: real)"
proof -
  have "(v * cos t) * (v * cos t) + (v * sin t) * (v * sin t)
          = v * v * (cos t * cos t + sin t * sin t)"
    by (simp only: algebra_simps)
  also have "\<dots> = v * v"
    by simp
  finally show ?thesis .
qed

lemma cap_launch_facts:
  "airResistance (data cap_launch)" "mass (data cap_launch) \<noteq> 0"
  "launch_vx (data cap_launch) = 2000 * cos (90 * PI / 180)"
  "launch_vy (data cap_launch) = 2000 * sin (90 * PI / 180)"
  by (simp_all add: cap_launch_def ProjectileSimulator_new_def launch_vx_def launch_vy_def)

lemma cap_launch_stores_10001:
  "\<exists>s'. calculateTrajectory cap_launch = Some (Done s')
        \<and> length (trajectoryPoints s') = 10001"
proof -
  let ?vx = "2000 * cos (90 * PI / 180)"
  let ?vy = "2000 * sin (90 * PI / 180)"
  have sq: "?vx * ?vx + ?vy * ?vy = 2000 * 2000"
    by (rule launch_speed_square)
  have vy: "1600 \<le> ?vy"
    using sin_right_angle by simp
  have init: "cap_inv (length ([] :: Vector2D list)) (0, 0, ?vx, ?vy)"
    using sq vy by (simp add: cap_inv_def)
  have "\<exists>ys. numerical_loop (data cap_launch) (0, 0, ?vx, ?vy) [] = Done ([] @ ys)
             \<and> length ([] @ ys) = 10001"
  proof (rule numerical_loop_reaches_cap [where I = cap_inv])
    show "\<And>k x y vx vy. cap_inv k (x, y, vx, vy) \<Longrightarrow> 0 \<le> y"
      by (simp add: cap_inv_def)
    show "\<And>k st. k \<le> 10000 \<Longrightarrow> cap_inv k st \<Longrightarrow>
            \<exists>st'. numerical_step (data cap_launch) st = Some st' \<and> cap_inv (Suc k) st'"
      by (rule cap_step)
    show "cap_inv (length ([] :: Vector2D list)) (0, 0, ?vx, ?vy)"
      by (rule init)
    show "length ([] :: Vector2D list) \<le> 10000"
      by simp
  qed
  then obtain ys where ys: "numerical_loop (data cap_launch) (0, 0, ?vx, ?vy) [] = Done ys"
      and len: "length ys = 10001"
    by auto
  obtain r where r: "calculateTrajectory cap_launch = Some r"
      and pts: "trajectoryPoints (stored r)
                  = stored (numerical_loop (data cap_launch)
                      (0, 0, launch_vx (data cap_launch), launch_vy (data cap_launch)) [])"
      and d: "\<exists>s'. r = Done s'"
    using drag_run_points [OF cap_launch_facts(1)] cap_launch_facts(2) by blast
  obtain s' where s': "r = Done s'"
    using d by blast
  have "trajectoryPoints s' = ys"
    using pts ys by (simp add: s' cap_launch_facts)
  then show ?thesis
    using r s' len by simp
qed

text \<open>
  For every input the drag path stores at most 10,001 points: the loop stops when the
  height goes below zero or when the vector has grown beyond 10,000 points, whichever
  comes first. With a mass other than zero the run divides by no zero and returns.
\<close>

lemma drag_sample_bound:
  assumes "airResistance (data s)"
  shows "\<exists>r. calculateTrajectory s = Some r
           \<and> length (trajectoryPoints (stored r)) \<le> 10001
           \<and> (mass (data s) \<noteq> 0 \<longrightarrow> (\<exists>s'. r = Done s'))"
proof -
  obtain r where r: "calculateTrajectory s = Some r"
      and d: "mass (data s) \<noteq> 0 \<longrightarrow> (\<exists>s'. r = Done s')"
    using drag_run_points [OF assms] by blast
  then show ?thesis
    using drag_points_length [OF assms r] by blast
qed

text \<open>
  Claim C3: the drag path stores at most 10,000 points, whatever the input. The program
  caps the number of points, with the constant 10000, but it tests the size of the vector
  after the point is appended, and with \<^verbatim>\<open>size() > 10000\<close>: the loop stops once the
  vector holds 10,001 points. The valid launch \<open>cap_launch\<close> stays above ground for
  10,001 iterations and ends with 10,001 stored points, one more than the claim allows.
\<close>

theorem C3_cap_launch_stores_10001:
  "airResistance (data cap_launch)
   \<and> 0 < initialVelocity (data cap_launch) \<and> 0 < gravity (data cap_launch)
   \<and> 0 < mass (data cap_launch) \<and> 0 < dragCoefficient (data cap_launch)
   \<and> (\<exists>s'. calculateTrajectory cap_launch = Some (Done s')
          \<and> length (trajectoryPoints s') = 10001
          \<and> \<not> length (trajectoryPoints s') \<le> 10000)"
proof -
  obtain s' where "calculateTrajectory cap_launch = Some (Done s')"
      and "length (trajectoryPoints s') = 10001"
    using cap_launch_stores_10001 by blast
  then have "\<exists>s'. calculateTrajectory cap_launch = Some (Done s')
          \<and> length (trajectoryPoints s') = 10001
          \<and> \<not> length (trajectoryPoints s') \<le> 10000"
    by auto
  then show ?thesis
    by (simp add: cap_launch_def ProjectileSimulator_new_def)
qed

subsection \<open>The drag-free loop\<close>

lemma analytical_loop_stop:
  "\<not> le_ieee t totalTime \<Longrightarrow> analytical_loop vx vy g totalTime t pts = Some pts"
  by (subst analytical_loop.simps) simp

lemma analytical_loop_break:
  "le_ieee t totalTime \<Longrightarrow> vy * t - 0.5 * g * t * t < 0 \<Longrightarrow>
   analytical_loop vx vy g totalTime t pts = Some pts"
  by (subst analytical_loop.simps) (simp add: Let_def)

lemma analytical_loop_push:
  "le_ieee t totalTime \<Longrightarrow> \<not> vy * t - 0.5 * g * t * t < 0 \<Longrightarrow>
   analytical_loop vx vy g totalTime t pts
     = analytical_loop vx vy g totalTime (binary32 (t + binary32 analytical_dt))
         (pts @ [\<lparr>x_of = vx * t, y_of = vy * t - 0.5 * g * t * t\<rparr>])"
  by (subst analytical_loop.simps) (simp add: Let_def)

text \<open>Whenever the loop returns, it has appended points with \<open>y \<ge> 0\<close> only.\<close>

lemma analytical_loop_nonneg:
  assumes "analytical_loop vx vy g totalTime t pts = Some r"
    and "\<forall>p \<in> set pts. 0 \<le> y_of p"
  shows "\<forall>p \<in> set r. 0 \<le> y_of p"
proof -
  have "(\<forall>p \<in> set pts. 0 \<le> y_of p) \<longrightarrow> (\<forall>p \<in> set r. 0 \<le> y_of p)"
  proof (rule analytical_loop.raw_induct
           [where P = "\<lambda>vx vy g totalTime t pts r.
                         (\<forall>p \<in> set pts. 0 \<le> y_of p) \<longrightarrow> (\<forall>p \<in> set r. 0 \<le> y_of p)",
            OF _ assms(1)],
         goal_cases)
    case (1 loop vx vy g totalTime t pts r)
    let ?p = "\<lparr>x_of = vx * t, y_of = vy * t - 0.5 * g * t * t\<rparr>"
    consider (stop) "\<not> le_ieee t totalTime"
      | (break) "le_ieee t totalTime" "vy * t - 0.5 * g * t * t < 0"
      | (push) "le_ieee t totalTime" "\<not> vy * t - 0.5 * g * t * t < 0"
      by blast
    then show ?case
    proof cases
      case stop
      then have "r = pts"
        using 1(2) by simp
      then show ?thesis
        by simp
    next
      case break
      then have "r = pts"
        using 1(2) by (simp add: Let_def)
      then show ?thesis
        by simp
    next
      case push
      then have run: "loop vx vy g totalTime (binary32 (t + binary32 analytical_dt))
                        (pts @ [?p]) = Some r"
        using 1(2) by (simp add: Let_def)
      show ?thesis
        using 1(1) [OF run] push(2) by simp
    qed
  qed
  then show ?thesis
    using assms(2) by blast
qed

lemma sample_time_0: "sample_time 0 = 0"
  by (simp add: sample_time_def)

lemma sample_time_Suc:
  "sample_time (Suc k) = binary32 (sample_time k + binary32 analytical_dt)"
  by (simp add: sample_time_def analytical_dt_def)


lemma sample_time_nonneg: "0 \<le> sample_time k"
proof (induction k)
  case 0
  show ?case by (simp add: sample_time_0)
next
  case (Suc k)
  have "0 \<le> binary32 analytical_dt"
    by (rule binary32_nonneg) (simp add: analytical_dt_def)
  then have "0 \<le> sample_time k + binary32 analytical_dt"
    using Suc by simp
  then show ?case
    unfolding sample_time_Suc by (rule binary32_nonneg)
qed

lemma spec_sample_eq:
  "\<lparr>x_of = vx * t, y_of = vy * t - 0.5 * g * t * t\<rparr> = spec_sample vx vy g t"
  by (simp add: spec_sample_def power2_eq_square algebra_simps)

text \<open>
  With a flight time below \<open>2\<^sup>1\<^sup>9\<close> s the loop returns, and what it has stored are the
  samples at the successive times, up to the first time beyond the flight time or the
  first sample below ground.
\<close>

lemma analytical_loop_samples:
  assumes bound: "T + binary32 analytical_dt < 524288"
  shows "length pts = k \<Longrightarrow>
         \<forall>i<k. pts ! i = spec_sample vx vy g (sample_time i) \<and> sample_time i \<le> T
                \<and> 0 \<le> y_of (pts ! i) \<Longrightarrow>
         \<exists>r. analytical_loop vx vy g (Finite T) (sample_time k) pts = Some r
            \<and> (\<forall>i<length r. r ! i = spec_sample vx vy g (sample_time i) \<and> sample_time i \<le> T
                  \<and> 0 \<le> y_of (r ! i))
            \<and> (\<not> sample_time (length r) \<le> T
                \<or> y_of (spec_sample vx vy g (sample_time (length r))) < 0)"
proof (induction "if sample_time k \<le> T then nat \<lfloor>(T - sample_time k) / 0.004\<rfloor> + 1 else 0"
        arbitrary: k pts rule: less_induct)
  case less
  let ?t = "sample_time k"
  let ?p = "\<lparr>x_of = vx * ?t, y_of = vy * ?t - 0.5 * g * ?t * ?t\<rparr>"
  have p: "?p = spec_sample vx vy g ?t"
    by (rule spec_sample_eq)
  consider (stop) "\<not> ?t \<le> T"
    | (break) "?t \<le> T" "vy * ?t - 0.5 * g * ?t * ?t < 0"
    | (push) "?t \<le> T" "\<not> vy * ?t - 0.5 * g * ?t * ?t < 0"
    by blast
  then show ?case
  proof cases
    case stop
    then have "analytical_loop vx vy g (Finite T) ?t pts = Some pts"
      by (intro analytical_loop_stop) simp
    then show ?thesis
      using stop less.prems by auto
  next
    case break
    then have "analytical_loop vx vy g (Finite T) ?t pts = Some pts"
      by (intro analytical_loop_break) simp_all
    moreover have "y_of (spec_sample vx vy g ?t) < 0"
      using break(2) unfolding p [symmetric] by simp
    ultimately show ?thesis
      using less.prems by auto
  next
    case push
    have run: "analytical_loop vx vy g (Finite T) ?t pts
                 = analytical_loop vx vy g (Finite T) (sample_time (Suc k)) (pts @ [?p])"
      unfolding sample_time_Suc using push by (intro analytical_loop_push) simp_all
    have adv: "?t + 0.004 \<le> sample_time (Suc k)"
      unfolding sample_time_Suc
      using bound push(1) by (intro accumulator_advances sample_time_nonneg) simp
    have dec: "(if sample_time (Suc k) \<le> T
                then nat \<lfloor>(T - sample_time (Suc k)) / 0.004\<rfloor> + 1 else 0)
             < (if ?t \<le> T then nat \<lfloor>(T - ?t) / 0.004\<rfloor> + 1 else 0)"
    proof (cases "sample_time (Suc k) \<le> T")
      case False
      then show ?thesis
        using push(1) by simp
    next
      case True
      have "(T - sample_time (Suc k)) / 0.004 \<le> (T - ?t) / 0.004 - 1"
        using adv by (simp add: field_simps)
      then have "\<lfloor>(T - sample_time (Suc k)) / 0.004\<rfloor> \<le> \<lfloor>(T - ?t) / 0.004\<rfloor> - 1"
        by linarith
      moreover have "0 \<le> \<lfloor>(T - sample_time (Suc k)) / 0.004\<rfloor>"
        using True by simp
      ultimately have "nat \<lfloor>(T - sample_time (Suc k)) / 0.004\<rfloor>
                         < nat \<lfloor>(T - ?t) / 0.004\<rfloor>"
        by linarith
      then show ?thesis
        using True push(1) by (simp only: if_True)
    qed
    have len: "length (pts @ [?p]) = Suc k"
      using less.prems(1) by simp
    have inv: "\<forall>i<Suc k. (pts @ [?p]) ! i = spec_sample vx vy g (sample_time i)
                  \<and> sample_time i \<le> T \<and> 0 \<le> y_of ((pts @ [?p]) ! i)"
    proof (intro allI impI)
      fix i
      assume "i < Suc k"
      then consider "i < k" | "i = k"
        by linarith
      then show "(pts @ [?p]) ! i = spec_sample vx vy g (sample_time i)
                  \<and> sample_time i \<le> T \<and> 0 \<le> y_of ((pts @ [?p]) ! i)"
      proof cases
        case 1
        then have old: "pts ! i = spec_sample vx vy g (sample_time i) \<and> sample_time i \<le> T
                    \<and> 0 \<le> y_of (pts ! i)"
          using less.prems(2) by blast
        have same: "(pts @ [?p]) ! i = pts ! i"
          using 1 less.prems(1) by (simp add: nth_append)
        show ?thesis
          unfolding same by (rule old)
      next
        case 2
        have same: "(pts @ [?p]) ! i = spec_sample vx vy g (sample_time i)"
          using 2 less.prems(1) p by (simp add: nth_append)
        have "0 \<le> y_of ?p"
          using push(2) by simp
        then have "0 \<le> y_of (spec_sample vx vy g (sample_time i))"
          unfolding p 2 .
        then show ?thesis
          unfolding same using push(1) 2 by simp
      qed
    qed
    show ?thesis
      unfolding run by (rule less.hyps [OF dec len inv])
  qed
qed

lemma calculateTrajectory_analytical:
  "\<not> airResistance (data s) \<Longrightarrow>
   calculateTrajectory s = calculateAnalytical (s\<lparr>trajectoryPoints := []\<rparr>)"
  by (simp add: calculateTrajectory_def Let_def)

lemma calculateAnalytical_loop:
  "calculateAnalytical s =
     (case analytical_loop (launch_vx (data s)) (launch_vy (data s)) (gravity (data s))
             (ieee_div (2 * launch_vy (data s)) (gravity (data s))) 0 (trajectoryPoints s) of
        None \<Rightarrow> None
      | Some pts \<Rightarrow> Some (Done (s\<lparr>trajectoryPoints := pts\<rparr>)))"
  by (simp add: calculateAnalytical_def Let_def launch_vx_def launch_vy_def)

lemma drag_free_run:
  assumes "\<not> airResistance (data s)"
    and "analytical_loop (launch_vx (data s)) (launch_vy (data s)) (gravity (data s))
           (ieee_div (2 * launch_vy (data s)) (gravity (data s))) 0 [] = Some pts"
  shows "calculateTrajectory s = Some (Done (s\<lparr>trajectoryPoints := pts\<rparr>))"
  using assms calculateAnalytical_loop [of "s\<lparr>trajectoryPoints := []\<rparr>"]
  by (simp add: calculateTrajectory_analytical)



text \<open>The drag-free run returns whenever the flight time is a number below \<open>2\<^sup>1\<^sup>9 - 1\<close> s.\<close>

lemma drag_free_returns:
  assumes "\<not> airResistance (data s)" and "gravity (data s) \<noteq> 0"
    and "2 * launch_vy (data s) / gravity (data s) < 524287"
  shows "\<exists>pts. calculateTrajectory s = Some (Done (s\<lparr>trajectoryPoints := pts\<rparr>))"
proof -
  let ?vx = "launch_vx (data s)" and ?vy = "launch_vy (data s)" and ?g = "gravity (data s)"
  let ?T = "2 * ?vy / ?g"
  have dt: "binary32 analytical_dt = 5368709 / 268435456"
    unfolding analytical_dt_def by (rule binary32_dt)
  have bound: "?T + binary32 analytical_dt < 524288"
    using assms(3) by (simp add: dt)
  have T: "ieee_div (2 * ?vy) ?g = Finite ?T"
    using assms(2) by (simp add: ieee_div_def)
  obtain r where run: "analytical_loop ?vx ?vy ?g (Finite ?T) (sample_time 0) [] = Some r"
    using analytical_loop_samples [OF bound, of "[]" 0 ?vx ?vy ?g] by auto
  have "calculateTrajectory s = Some (Done (s\<lparr>trajectoryPoints := r\<rparr>))"
    using run by (intro drag_free_run [OF assms(1)]) (simp add: T sample_time_0)
  then show ?thesis
    by blast
qed



lemma sin_half_right_angle: "0.4 \<le> sin (45 * PI / 180)"
proof -
  define b :: real where "b = 45 * PI / 180"
  have b: "b = 13176795 / 16777216"
    by (simp add: b_def PI_value)
  have e: "90 * PI / 180 = 2 * b"
    by (simp add: b_def)
  have "0.8 \<le> 2 * sin b * cos b"
    using sin_right_angle unfolding e sin_double .
  then have prod: "0.4 \<le> sin b * cos b"
    by (simp add: algebra_simps)
  have pos: "0 \<le> sin b"
    using sin_gt_zero_02 [of b] by (simp add: b)
  have "sin b * cos b \<le> sin b * 1"
    using pos by (intro mult_left_mono) simp_all
  then have "0.4 \<le> sin b"
    using prod by simp
  then show ?thesis
    unfolding b_def .
qed


subsection \<open>Runs of the drag-free loop that do not return\<close>

lemma drag_free_no_return:
  assumes "\<not> airResistance (data s)"
    and "analytical_loop (launch_vx (data s)) (launch_vy (data s)) (gravity (data s))
           (ieee_div (2 * launch_vy (data s)) (gravity (data s))) 0 [] = None"
  shows "calculateTrajectory s = None"
  using assms calculateAnalytical_loop [of "s\<lparr>trajectoryPoints := []\<rparr>"]
  by (simp add: calculateTrajectory_analytical)

text \<open>
  The loop does not return from a set of times that it never leaves and on which it
  neither stops nor breaks.
\<close>

lemma analytical_loop_never_returns:
  assumes inv: "\<And>t. I t \<Longrightarrow> le_ieee t totalTime \<and> \<not> vy * t - 0.5 * g * t * t < 0
                         \<and> I (binary32 (t + binary32 analytical_dt))"
    and start: "I t"
  shows "analytical_loop vx vy g totalTime t pts = None"
proof (cases "analytical_loop vx vy g totalTime t pts")
  case None
  then show ?thesis .
next
  case (Some r)
  have "vx' = vx \<and> vy' = vy \<and> g' = g \<and> T' = totalTime \<and> I t' \<longrightarrow> False"
    if "analytical_loop vx' vy' g' T' t' pts' = Some r'" for vx' vy' g' T' t' pts' r'
  proof (rule analytical_loop.raw_induct
           [where P = "\<lambda>vx' vy' g' T' t' pts' r'.
                         vx' = vx \<and> vy' = vy \<and> g' = g \<and> T' = totalTime \<and> I t' \<longrightarrow> False",
            OF _ that],
         goal_cases)
    case (1 loop vx' vy' g' T' t' pts' r')
    show ?case
    proof (intro impI)
      assume a: "vx' = vx \<and> vy' = vy \<and> g' = g \<and> T' = totalTime \<and> I t'"
      then have i: "le_ieee t' totalTime" "\<not> vy * t' - 0.5 * g * t' * t' < 0"
          "I (binary32 (t' + binary32 analytical_dt))"
        using inv [of t'] by blast+
      have run: "loop vx vy g totalTime (binary32 (t' + binary32 analytical_dt))
                   (pts' @ [\<lparr>x_of = vx * t', y_of = vy * t' - 0.5 * g * t' * t'\<rparr>]) = Some r'"
        using 1(2) a i(1,2) by (simp add: Let_def)
      show False
        using 1(1) [OF run] i(3) by simp
    qed
  qed
  then show ?thesis
    using Some start by blast
qed




text \<open>
  With the gravity \<open>0\<close> and a vertical velocity above \<open>0\<close> the flight time is \<open>+\<infinity>\<close> and
  no sample is below ground: the run does not return. With a vertical velocity of \<open>0\<close>
  (the flight time is not a number) or below \<open>0\<close> (it is \<open>-\<infinity>\<close>) the loop stops at once.
\<close>

lemma zero_gravity_never_returns:
  assumes "\<not> airResistance (data s)" and "gravity (data s) = 0" and "0 < launch_vy (data s)"
  shows "calculateTrajectory s = None"
proof -
  have T: "ieee_div (2 * launch_vy (data s)) 0 = PlusInfinity"
    using assms by (simp add: ieee_div_def)
  have "analytical_loop (launch_vx (data s)) (launch_vy (data s)) (gravity (data s))
          (ieee_div (2 * launch_vy (data s)) (gravity (data s))) 0 [] = None"
    unfolding assms(2) T
  proof (rule analytical_loop_never_returns [where I = "\<lambda>t. 0 \<le> t"])
    show "0 \<le> (0::real)"
      by simp
  next
    fix t :: real
    assume t: "0 \<le> t"
    have "0 \<le> binary32 analytical_dt"
      by (rule binary32_nonneg) (simp add: analytical_dt_def)
    then have "0 \<le> binary32 (t + binary32 analytical_dt)"
      using t by (intro binary32_nonneg) simp
    moreover have "0 \<le> launch_vy (data s) * t"
      using t assms(3) by simp
    ultimately show "le_ieee t PlusInfinity
          \<and> \<not> launch_vy (data s) * t - 0.5 * 0 * t * t < 0
          \<and> 0 \<le> binary32 (t + binary32 analytical_dt)"
      by simp
  qed
  then show ?thesis
    by (rule drag_free_no_return [OF assms(1)])
qed

lemma zero_gravity_empty:
  assumes "\<not> airResistance (data s)" and "gravity (data s) = 0" and "launch_vy (data s) \<le> 0"
  shows "calculateTrajectory s = Some (Done (s\<lparr>trajectoryPoints := []\<rparr>))"
proof -
  have "\<not> le_ieee 0 (ieee_div (2 * launch_vy (data s)) (gravity (data s)))"
    using assms by (simp add: ieee_div_def)
  then have "analytical_loop (launch_vx (data s)) (launch_vy (data s)) (gravity (data s))
           (ieee_div (2 * launch_vy (data s)) (gravity (data s))) 0 [] = Some []"
    by (rule analytical_loop_stop)
  then show ?thesis
    by (rule drag_free_run [OF assms(1)])
qed

lemma weightless_launch_never_returns: "calculateTrajectory weightless_launch = None"
proof (rule zero_gravity_never_returns)
  show "\<not> airResistance (data weightless_launch)" "gravity (data weightless_launch) = 0"
    by (simp_all add: weightless_launch_def ProjectileSimulator_new_def
        ProjectileData_default_def)
  have "launch_vy (data weightless_launch) = 50 * sin (45 * PI / 180)"
    by (simp add: launch_vy_def weightless_launch_def ProjectileSimulator_new_def
        ProjectileData_default_def)
  then show "0 < launch_vy (data weightless_launch)"
    using sin_half_right_angle by simp
qed




subsection \<open>Launches at or below the horizontal\<close>

lemma getMaxHeight_origin_or_empty:
  "trajectoryPoints s = [] \<or> trajectoryPoints s = [\<lparr>x_of = 0, y_of = 0\<rparr>] \<Longrightarrow> getMaxHeight s = 0"
  by (auto simp: getMaxHeight_def)

lemma analytical_loop_level:
  "analytical_loop vx 0 g (Finite 0) 0 [] = Some [\<lparr>x_of = 0, y_of = 0\<rparr>]"
proof -
  have "analytical_loop vx 0 g (Finite 0) 0 []
          = analytical_loop vx 0 g (Finite 0) (binary32 (0 + binary32 analytical_dt))
              ([] @ [\<lparr>x_of = vx * 0, y_of = 0 * 0 - 0.5 * g * 0 * 0\<rparr>])"
    by (rule analytical_loop_push) simp_all
  also have "\<dots> = Some ([] @ [\<lparr>x_of = vx * 0, y_of = 0 * 0 - 0.5 * g * 0 * 0\<rparr>])"
    unfolding first_sample_time by (rule analytical_loop_stop) simp
  finally show ?thesis
    by simp
qed

lemma analytical_at_or_below_horizontal:
  assumes "\<not> airResistance (data s)" and "0 < gravity (data s)" and "launch_vy (data s) \<le> 0"
  shows "calculateTrajectory s =
           Some (Done (s\<lparr>trajectoryPoints :=
                          (if launch_vy (data s) = 0 then [\<lparr>x_of = 0, y_of = 0\<rparr>] else [])\<rparr>))"
proof (cases "launch_vy (data s) = 0")
  case True
  have T: "ieee_div (2 * 0) (gravity (data s)) = Finite 0"
    using assms(2) by (simp add: ieee_div_def)
  have "analytical_loop (launch_vx (data s)) (launch_vy (data s)) (gravity (data s))
           (ieee_div (2 * launch_vy (data s)) (gravity (data s))) 0 []
          = Some [\<lparr>x_of = 0, y_of = 0\<rparr>]"
    unfolding True T by (rule analytical_loop_level)
  then have "calculateTrajectory s = Some (Done (s\<lparr>trajectoryPoints := [\<lparr>x_of = 0, y_of = 0\<rparr>]\<rparr>))"
    by (rule drag_free_run [OF assms(1)])
  then show ?thesis
    using True by simp
next
  case False
  then have "2 * launch_vy (data s) / gravity (data s) < 0"
    using assms(2,3) by (simp add: field_simps)
  then have "\<not> le_ieee 0 (ieee_div (2 * launch_vy (data s)) (gravity (data s)))"
    using assms(2) by (simp add: ieee_div_def)
  then have "analytical_loop (launch_vx (data s)) (launch_vy (data s)) (gravity (data s))
           (ieee_div (2 * launch_vy (data s)) (gravity (data s))) 0 [] = Some []"
    by (rule analytical_loop_stop)
  then have "calculateTrajectory s = Some (Done (s\<lparr>trajectoryPoints := []\<rparr>))"
    by (rule drag_free_run [OF assms(1)])
  then show ?thesis
    using False by simp
qed

text \<open>The vertical velocity after the first step, when the drag does not turn it round.\<close>

lemma first_step_descends:
  assumes g: "0 < gravity d" and vy: "vy \<le> 0" and m: "mass d \<noteq> 0"
    and calm: "vy = 0 \<or> \<not> speed_of vx vy > 0.001
               \<or> dragForce_of d (speed_of vx vy) / mass d * numerical_dt \<le> speed_of vx vy"
  shows "\<exists>x' y' vx' vy'. numerical_step d (x, 0, vx, vy) = Some (x', y', vx', vy') \<and> y' < 0"
proof (cases "speed_of vx vy > 0.001")
  case False
  then have "dragAccel d vx vy = Some (0, 0)"
    by (simp add: dragAccel_def)
  moreover have "(vy + (0 - gravity d) * numerical_dt) * numerical_dt < 0"
    using g vy by (simp add: numerical_dt_def)
  ultimately show ?thesis
    using numerical_step_Some [of d vx vy 0 0 x 0] by simp
next
  case True
  define sp where "sp = speed_of vx vy"
  define fm where "fm = dragForce_of d sp / mass d"
  have sp: "0 < sp"
    using True by (simp add: sp_def)
  have acc: "dragAccel d vx vy = Some (- fm * (vx / sp), - fm * (vy / sp))"
    using dragAccel_above [OF True m] by (simp add: fm_def sp_def)
  have "fm * (vy / sp) * numerical_dt \<ge> vy"
  proof (cases "vy = 0")
    case True
    then show ?thesis by simp
  next
    case False
    then have "fm * numerical_dt \<le> sp"
      using calm True by (simp add: fm_def sp_def)
    then have "fm * numerical_dt / sp \<le> 1"
      using sp by (simp add: field_simps)
    then have "vy * 1 \<le> vy * (fm * numerical_dt / sp)"
      using vy by (intro mult_left_mono_neg) simp_all
    then show ?thesis
      by (simp add: field_simps)
  qed
  then have "vy + (- fm * (vy / sp) - gravity d) * numerical_dt \<le> - gravity d * numerical_dt"
    by (simp add: algebra_simps)
  moreover have "- gravity d * numerical_dt < 0"
    using g by (simp add: numerical_dt_def)
  ultimately have "vy + (- fm * (vy / sp) - gravity d) * numerical_dt < 0"
    by linarith
  then have "(vy + (- fm * (vy / sp) - gravity d) * numerical_dt) * numerical_dt < 0"
    by (simp add: numerical_dt_def)
  then show ?thesis
    using numerical_step_Some [OF acc, of x 0] by simp
qed

lemma drag_at_or_below_horizontal:
  assumes air: "airResistance (data s)" and g: "0 < gravity (data s)"
    and vy: "launch_vy (data s) \<le> 0" and m: "mass (data s) \<noteq> 0"
    and calm: "launch_vy (data s) = 0
               \<or> \<not> speed_of (launch_vx (data s)) (launch_vy (data s)) > 0.001
               \<or> dragForce_of (data s) (speed_of (launch_vx (data s)) (launch_vy (data s)))
                    / mass (data s) * numerical_dt
                  \<le> speed_of (launch_vx (data s)) (launch_vy (data s))"
  shows "calculateTrajectory s = Some (Done (s\<lparr>trajectoryPoints := [\<lparr>x_of = 0, y_of = 0\<rparr>]\<rparr>))"
proof -
  let ?vx = "launch_vx (data s)" and ?vy = "launch_vy (data s)"
  obtain x' y' vx' vy' where st: "numerical_step (data s) (0, 0, ?vx, ?vy) = Some (x', y', vx', vy')"
      and y': "y' < 0"
    using first_step_descends [OF g vy m calm, of 0] by blast
  have "numerical_loop (data s) (0, 0, ?vx, ?vy) []
          = numerical_loop (data s) (x', y', vx', vy') ([] @ [\<lparr>x_of = 0, y_of = 0\<rparr>])"
    by (rule numerical_loop_continue [OF _ st]) simp_all
  also have "\<dots> = Done [\<lparr>x_of = 0, y_of = 0\<rparr>]"
    using y' by (simp add: numerical_loop_landed)
  finally have "calculateNumerical (s\<lparr>trajectoryPoints := []\<rparr>)
                  = Done (s\<lparr>trajectoryPoints := [\<lparr>x_of = 0, y_of = 0\<rparr>]\<rparr>)"
    using calculateNumerical_Done [of "s\<lparr>trajectoryPoints := []\<rparr>" "[\<lparr>x_of = 0, y_of = 0\<rparr>]"]
    by simp
  then show ?thesis
    using air by (simp add: calculateTrajectory_drag)
qed

lemma overshoot_facts:
  "airResistance (data overshoot_launch)" "mass (data overshoot_launch) = 1"
  "gravity (data overshoot_launch) = 9.8" "dragCoefficient (data overshoot_launch) = 0.47"
  "initialVelocity (data overshoot_launch) = 100000" "angle (data overshoot_launch) = - 90"
  by (simp_all add: overshoot_launch_def ProjectileSimulator_new_def ProjectileData_default_def)

lemma overshoot_vy: "launch_vy (data overshoot_launch) \<le> - 80000"
proof -
  have "launch_vy (data overshoot_launch) = - (100000 * sin (90 * PI / 180))"
    by (simp add: launch_vy_def overshoot_facts)
  then show ?thesis
    using sin_right_angle by simp
qed

lemma overshoot_speed:
  "speed_of (launch_vx (data overshoot_launch)) (launch_vy (data overshoot_launch)) = 100000"
proof -
  have "launch_vx (data overshoot_launch) * launch_vx (data overshoot_launch)
        + launch_vy (data overshoot_launch) * launch_vy (data overshoot_launch)
        = 100000 * 100000"
    unfolding launch_vx_def launch_vy_def overshoot_facts by (rule launch_speed_square)
  then have "speed_of (launch_vx (data overshoot_launch)) (launch_vy (data overshoot_launch))
               = sqrt (100000 * 100000)"
    by (simp only: speed_of_def)
  then show ?thesis
    by simp
qed

lemma overshoot_second_point:
  "\<exists>s'. calculateTrajectory overshoot_launch = Some (Done s') \<and> 2 \<le> length (trajectoryPoints s')"
proof -
  let ?d = "data overshoot_launch"
  let ?vx = "launch_vx ?d" and ?vy = "launch_vy ?d"
  have guard: "speed_of ?vx ?vy > 0.001"
    by (simp add: overshoot_speed)
  have m: "mass ?d \<noteq> 0"
    by (simp add: overshoot_facts)
  have acc: "dragAccel ?d ?vx ?vy = Some (- 28787500 * (?vx / 100000), - 28787500 * (?vy / 100000))"
    using dragAccel_above [OF guard m]
    by (simp add: overshoot_speed dragForce_of_def overshoot_facts AIR_DENSITY_def
        CROSS_SECTION_AREA_def)
  define vy' where "vy' = ?vy + (- 28787500 * (?vy / 100000) - gravity ?d) * numerical_dt"
  define vx' where "vx' = ?vx + (- 28787500 * (?vx / 100000)) * numerical_dt"
  have st: "numerical_step ?d (0, 0, ?vx, ?vy) = Some (0 + vx' * numerical_dt, 0 + vy' * numerical_dt, vx', vy')"
    unfolding numerical_step_Some [OF acc] vx'_def vy'_def by simp
  have "vy' = - 1.87875 * ?vy - 0.098"
    by (simp add: vy'_def overshoot_facts numerical_dt_def field_simps)
  then have "0 \<le> vy'"
    using overshoot_vy by simp
  then have y': "0 \<le> 0 + vy' * numerical_dt"
    by (simp add: numerical_dt_def)
  have run: "numerical_loop ?d (0, 0, ?vx, ?vy) []
          = numerical_loop ?d (0 + vx' * numerical_dt, 0 + vy' * numerical_dt, vx', vy')
              ([] @ [\<lparr>x_of = 0, y_of = 0\<rparr>])"
    by (rule numerical_loop_continue [OF _ st]) simp_all
  obtain ys where ys: "stored (numerical_loop ?d (0 + vx' * numerical_dt, 0 + vy' * numerical_dt, vx', vy')
                  ([] @ [\<lparr>x_of = 0, y_of = 0\<rparr>])) = ([] @ [\<lparr>x_of = 0, y_of = 0\<rparr>]) @ ys"
      and "0 \<le> 0 + vy' * numerical_dt \<longrightarrow> ys \<noteq> []"
    using numerical_loop_shape [of ?d "0 + vx' * numerical_dt" "0 + vy' * numerical_dt" vx' vy'
            "[] @ [\<lparr>x_of = 0, y_of = 0\<rparr>]"] by blast
  then have ne: "ys \<noteq> []"
    using y' by simp
  obtain r where r: "numerical_loop ?d (0, 0, ?vx, ?vy) [] = Done r"
    using numerical_loop_total [OF m] by blast
  then have "r = \<lparr>x_of = 0, y_of = 0\<rparr> # ys"
    using ys run by simp
  then have len: "2 \<le> length r"
    using ne by (cases ys) simp_all
  have "calculateNumerical (overshoot_launch\<lparr>trajectoryPoints := []\<rparr>)
          = Done (overshoot_launch\<lparr>trajectoryPoints := r\<rparr>)"
    using calculateNumerical_Done [of "overshoot_launch\<lparr>trajectoryPoints := []\<rparr>" r] r
    by simp
  then show ?thesis
    using len overshoot_facts(1) by (simp add: calculateTrajectory_drag)
qed

text \<open>
  Claim C7, as stated, on the drag path. \<open>overshoot_launch\<close> is a valid launch pointed
  straight down (\<open>vy \<le> - 80000\<close>). In its first step the drag acceleration times
  \<open>dt\<close> is 2.87875 times the velocity, so the explicit Euler step turns the velocity
  round: the second state is above ground and is stored. The trajectory has at least two
  points.
\<close>

theorem C7_counterexample:
  "0 < gravity (data overshoot_launch) \<and> launch_vy (data overshoot_launch) \<le> 0
   \<and> 0 < initialVelocity (data overshoot_launch)
   \<and> (\<exists>s'. calculateTrajectory overshoot_launch = Some (Done s')
          \<and> 2 \<le> length (trajectoryPoints s'))"
  using overshoot_second_point overshoot_vy by (simp add: overshoot_facts)

text \<open>
  Claim C7, amended. For a launch with positive gravity whose vertical velocity \<open>vy\<close> is
  zero or negative: without drag the trajectory is exactly the origin when \<open>vy = 0\<close> and
  empty when \<open>vy < 0\<close>; with drag (and a mass other than zero) the trajectory is exactly
  the origin when \<open>vy = 0\<close>, or when the speed is at most \<open>0.001\<close>, or when the drag of
  the first step does not turn the velocity round (\<open>F / mass * dt \<le> speed\<close>). In each of
  these cases the run returns and \<open>getMaxHeight\<close> is \<open>0\<close>. In particular a launch at
  angle \<open>0\<close> stores the origin only, on both paths.
\<close>

theorem C7_launch_at_or_below_horizontal:
  assumes "0 < gravity (data s)" and "launch_vy (data s) \<le> 0"
  shows "(\<not> airResistance (data s) \<longrightarrow>
            calculateTrajectory s =
              Some (Done (s\<lparr>trajectoryPoints :=
                             (if launch_vy (data s) = 0 then [\<lparr>x_of = 0, y_of = 0\<rparr>] else [])\<rparr>))
          \<and> getMaxHeight (s\<lparr>trajectoryPoints :=
                             (if launch_vy (data s) = 0 then [\<lparr>x_of = 0, y_of = 0\<rparr>] else [])\<rparr>)
              = 0)
       \<and> (airResistance (data s) \<and> mass (data s) \<noteq> 0
            \<and> (launch_vy (data s) = 0
               \<or> \<not> speed_of (launch_vx (data s)) (launch_vy (data s)) > 0.001
               \<or> dragForce_of (data s) (speed_of (launch_vx (data s)) (launch_vy (data s)))
                    / mass (data s) * numerical_dt
                  \<le> speed_of (launch_vx (data s)) (launch_vy (data s))) \<longrightarrow>
            calculateTrajectory s
              = Some (Done (s\<lparr>trajectoryPoints := [\<lparr>x_of = 0, y_of = 0\<rparr>]\<rparr>))
          \<and> getMaxHeight (s\<lparr>trajectoryPoints := [\<lparr>x_of = 0, y_of = 0\<rparr>]\<rparr>) = 0)"
proof (intro conjI impI)
  assume a: "\<not> airResistance (data s)"
  show "calculateTrajectory s =
              Some (Done (s\<lparr>trajectoryPoints :=
                             (if launch_vy (data s) = 0 then [\<lparr>x_of = 0, y_of = 0\<rparr>] else [])\<rparr>))"
    by (rule analytical_at_or_below_horizontal [OF a assms])
  show "getMaxHeight (s\<lparr>trajectoryPoints :=
                             (if launch_vy (data s) = 0 then [\<lparr>x_of = 0, y_of = 0\<rparr>] else [])\<rparr>)
              = 0"
    by (rule getMaxHeight_origin_or_empty) simp
next
  assume a: "airResistance (data s) \<and> mass (data s) \<noteq> 0
            \<and> (launch_vy (data s) = 0
               \<or> \<not> speed_of (launch_vx (data s)) (launch_vy (data s)) > 0.001
               \<or> dragForce_of (data s) (speed_of (launch_vx (data s)) (launch_vy (data s)))
                    / mass (data s) * numerical_dt
                  \<le> speed_of (launch_vx (data s)) (launch_vy (data s)))"
  show "calculateTrajectory s
              = Some (Done (s\<lparr>trajectoryPoints := [\<lparr>x_of = 0, y_of = 0\<rparr>]\<rparr>))"
    using a assms by (intro drag_at_or_below_horizontal) simp_all
  show "getMaxHeight (s\<lparr>trajectoryPoints := [\<lparr>x_of = 0, y_of = 0\<rparr>]\<rparr>) = 0"
    by (rule getMaxHeight_origin_or_empty) simp
qed

lemma flat_launch_facts:
  "\<not> airResistance (data flat_launch)" "0 < gravity (data flat_launch)"
  "launch_vy (data flat_launch) = 0"
  by (simp_all add: flat_launch_def launch_vy_def ProjectileSimulator_new_def
      ProjectileData_default_def)

lemma flat_drag_launch_facts:
  "airResistance (data flat_drag_launch)" "0 < gravity (data flat_drag_launch)"
  "launch_vy (data flat_drag_launch) = 0" "mass (data flat_drag_launch) \<noteq> 0"
  by (simp_all add: flat_drag_launch_def launch_vy_def ProjectileSimulator_new_def
      ProjectileData_default_def)

theorem C7_launch_at_or_below_horizontal_witness:
  "0 < gravity (data flat_launch) \<and> launch_vy (data flat_launch) \<le> 0
   \<and> \<not> airResistance (data flat_launch)
   \<and> calculateTrajectory flat_launch
       = Some (Done (flat_launch\<lparr>trajectoryPoints := [\<lparr>x_of = 0, y_of = 0\<rparr>]\<rparr>))
   \<and> getMaxHeight (flat_launch\<lparr>trajectoryPoints := [\<lparr>x_of = 0, y_of = 0\<rparr>]\<rparr>) = 0
   \<and> 0 < gravity (data flat_drag_launch) \<and> launch_vy (data flat_drag_launch) \<le> 0
   \<and> airResistance (data flat_drag_launch) \<and> mass (data flat_drag_launch) \<noteq> 0
   \<and> calculateTrajectory flat_drag_launch
       = Some (Done (flat_drag_launch\<lparr>trajectoryPoints := [\<lparr>x_of = 0, y_of = 0\<rparr>]\<rparr>))
   \<and> getMaxHeight (flat_drag_launch\<lparr>trajectoryPoints := [\<lparr>x_of = 0, y_of = 0\<rparr>]\<rparr>) = 0"
  using C7_launch_at_or_below_horizontal [of flat_launch]
        C7_launch_at_or_below_horizontal [of flat_drag_launch]
        flat_launch_facts flat_drag_launch_facts
  by (simp add: getMaxHeight_def)

subsection \<open>No validation of the parameters\<close>

lemma still_launch_facts:
  "\<not> airResistance (data still_launch)" "0 < gravity (data still_launch)"
  "launch_vy (data still_launch) = 0" "initialVelocity (data still_launch) = 0"
  by (simp_all add: still_launch_def launch_vy_def ProjectileSimulator_new_def
      ProjectileData_default_def)

lemma invalid_launch_facts:
  "airResistance (data invalid_launch)" "mass (data invalid_launch) = - 1"
  "initialVelocity (data invalid_launch) = - 50" "gravity (data invalid_launch) = - 9.8"
  "dragCoefficient (data invalid_launch) = - 0.47"
  by (simp_all add: invalid_launch_def ProjectileSimulator_new_def)

lemma backward_launch_facts:
  "\<not> airResistance (data backward_launch)" "gravity (data backward_launch) = 9.8"
  "initialVelocity (data backward_launch) = - 50" "angle (data backward_launch) = 45"
  by (simp_all add: backward_launch_def ProjectileSimulator_new_def ProjectileData_default_def)

lemma backward_launch_vy: "launch_vy (data backward_launch) \<le> 0"
proof -
  have "launch_vy (data backward_launch) = - (50 * sin (45 * PI / 180))"
    by (simp add: launch_vy_def backward_launch_facts)
  then show ?thesis
    using sin_half_right_angle by simp
qed

lemma weightless_backward_launch_facts:
  "\<not> airResistance (data weightless_backward_launch)"
  "gravity (data weightless_backward_launch) = 0"
  "initialVelocity (data weightless_backward_launch) = - 50"
  "angle (data weightless_backward_launch) = 45"
  by (simp_all add: weightless_backward_launch_def ProjectileSimulator_new_def
      ProjectileData_default_def)

lemma weightless_backward_launch_vy: "launch_vy (data weightless_backward_launch) \<le> 0"
proof -
  have "launch_vy (data weightless_backward_launch) = - (50 * sin (45 * PI / 180))"
    by (simp add: launch_vy_def weightless_backward_launch_facts)
  then show ?thesis
    using sin_half_right_angle by simp
qed

lemma drag_returns:
  assumes "airResistance (data s)" and "mass (data s) \<noteq> 0"
  shows "\<exists>pts. calculateTrajectory s = Some (Done (s\<lparr>trajectoryPoints := pts\<rparr>)) \<and> pts \<noteq> []"
proof -
  obtain pts where run: "numerical_loop (data s) (0, 0, launch_vx (data s), launch_vy (data s)) []
                      = Done pts"
    using numerical_loop_total [OF assms(2)] by blast
  obtain ys where "stored (numerical_loop (data s)
                     (0, 0, launch_vx (data s), launch_vy (data s)) []) = [] @ ys"
      and "(0::real) \<ge> 0 \<longrightarrow> ys \<noteq> [] \<and> hd ys = \<lparr>x_of = 0, y_of = 0\<rparr>"
    using numerical_loop_shape [of "data s" 0 0 "launch_vx (data s)" "launch_vy (data s)" "[]"]
    by blast
  then have ne: "pts \<noteq> []"
    using run by simp
  have "calculateNumerical (s\<lparr>trajectoryPoints := []\<rparr>) = Done (s\<lparr>trajectoryPoints := pts\<rparr>)"
    using calculateNumerical_Done [of "s\<lparr>trajectoryPoints := []\<rparr>" pts] run by simp
  then have "calculateTrajectory s = Some (Done (s\<lparr>trajectoryPoints := pts\<rparr>))"
    using assms(1) by (simp add: calculateTrajectory_drag)
  then show ?thesis
    using ne by blast
qed

text \<open>
  Claim C5, as stated: \<open>still_launch\<close> has the initial velocity \<open>0\<close>, which the claim
  says is rejected. The program computes and stores a trajectory from it.
\<close>

theorem C5_counterexample:
  "initialVelocity (data still_launch) \<le> 0
   \<and> calculateTrajectory still_launch
       = Some (Done (still_launch\<lparr>trajectoryPoints := [\<lparr>x_of = 0, y_of = 0\<rparr>]\<rparr>))"
  using analytical_at_or_below_horizontal [of still_launch] still_launch_facts by simp

text \<open>
  Claim C5, amended. \<open>calculateTrajectory\<close> validates nothing and has no
  invalid-parameter result. From parameters the specification calls invalid (an initial
  velocity or a gravity that is zero or negative, or, with drag, a mass or a drag
  coefficient that is zero or negative) it computes as from any others: with drag and a
  mass other than zero the run returns a stored trajectory, which is not empty; without
  drag it returns a stored trajectory when the gravity is not zero and the flight time
  \<open>2 vy / g\<close> is below \<open>2\<^sup>1\<^sup>9 - 1\<close> s, and the empty trajectory when the gravity is zero
  and \<open>vy \<le> 0\<close>. (Without drag, with the gravity zero and \<open>vy > 0\<close>, the run does not
  return: \<open>zero_gravity_never_returns\<close>.)
\<close>

theorem C5_no_validation:
  assumes "spec_invalid_parameter (data s)"
  shows "(airResistance (data s) \<and> mass (data s) \<noteq> 0 \<longrightarrow>
            (\<exists>pts. calculateTrajectory s = Some (Done (s\<lparr>trajectoryPoints := pts\<rparr>))
                 \<and> pts \<noteq> []))
       \<and> (\<not> airResistance (data s) \<and> gravity (data s) \<noteq> 0
            \<and> 2 * launch_vy (data s) / gravity (data s) < 524287 \<longrightarrow>
            (\<exists>pts. calculateTrajectory s = Some (Done (s\<lparr>trajectoryPoints := pts\<rparr>))))
       \<and> (\<not> airResistance (data s) \<and> gravity (data s) = 0 \<and> launch_vy (data s) \<le> 0 \<longrightarrow>
            calculateTrajectory s = Some (Done (s\<lparr>trajectoryPoints := []\<rparr>)))"
  using drag_returns [of s] drag_free_returns [of s] zero_gravity_empty [of s] by blast

theorem C5_no_validation_witness:
  "spec_invalid_parameter (data invalid_launch)
   \<and> airResistance (data invalid_launch) \<and> mass (data invalid_launch) \<noteq> 0
   \<and> (\<exists>pts. calculateTrajectory invalid_launch
                = Some (Done (invalid_launch\<lparr>trajectoryPoints := pts\<rparr>)) \<and> pts \<noteq> [])
   \<and> spec_invalid_parameter (data backward_launch)
   \<and> \<not> airResistance (data backward_launch) \<and> gravity (data backward_launch) \<noteq> 0
   \<and> 2 * launch_vy (data backward_launch) / gravity (data backward_launch) < 524287
   \<and> (\<exists>pts. calculateTrajectory backward_launch
                = Some (Done (backward_launch\<lparr>trajectoryPoints := pts\<rparr>)))
   \<and> spec_invalid_parameter (data weightless_backward_launch)
   \<and> \<not> airResistance (data weightless_backward_launch)
   \<and> gravity (data weightless_backward_launch) = 0
   \<and> launch_vy (data weightless_backward_launch) \<le> 0
   \<and> calculateTrajectory weightless_backward_launch
       = Some (Done (weightless_backward_launch\<lparr>trajectoryPoints := []\<rparr>))"
proof -
  have i1: "spec_invalid_parameter (data invalid_launch)"
    by (simp add: spec_invalid_parameter_def invalid_launch_facts)
  have i2: "spec_invalid_parameter (data backward_launch)"
    by (simp add: spec_invalid_parameter_def backward_launch_facts)
  have i3: "spec_invalid_parameter (data weightless_backward_launch)"
    by (simp add: spec_invalid_parameter_def weightless_backward_launch_facts)
  have h1: "airResistance (data invalid_launch) \<and> mass (data invalid_launch) \<noteq> 0"
    by (simp add: invalid_launch_facts)
  have "2 * launch_vy (data backward_launch) / 9.8 \<le> 0"
    using backward_launch_vy by simp
  then have h2: "\<not> airResistance (data backward_launch) \<and> gravity (data backward_launch) \<noteq> 0
      \<and> 2 * launch_vy (data backward_launch) / gravity (data backward_launch) < 524287"
    by (simp add: backward_launch_facts)
  have h3: "\<not> airResistance (data weightless_backward_launch)
      \<and> gravity (data weightless_backward_launch) = 0
      \<and> launch_vy (data weightless_backward_launch) \<le> 0"
    using weightless_backward_launch_vy by (simp add: weightless_backward_launch_facts)
  show ?thesis
    using C5_no_validation [OF i1] C5_no_validation [OF i2] C5_no_validation [OF i3]
      i1 i2 i3 h1 h2 h3
    by blast
qed

subsection \<open>The metrics\<close>

lemma calculateAnalytical_nonneg:
  assumes "\<forall>p \<in> set (trajectoryPoints s). 0 \<le> y_of p"
    and "calculateAnalytical s = Some (Done s')"
  shows "\<forall>p \<in> set (trajectoryPoints s'). 0 \<le> y_of p"
proof -
  let ?loop = "analytical_loop (launch_vx (data s)) (launch_vy (data s)) (gravity (data s))
             (ieee_div (2 * launch_vy (data s)) (gravity (data s))) 0 (trajectoryPoints s)"
  have "?loop = Some (trajectoryPoints s')"
    using assms(2) unfolding calculateAnalytical_loop by (cases ?loop) auto
  then show ?thesis
    by (rule analytical_loop_nonneg) (rule assms(1))
qed

lemma calculateNumerical_nonneg:
  assumes "\<forall>p \<in> set (trajectoryPoints s). 0 \<le> y_of p" and "calculateNumerical s = Done s'"
  shows "\<forall>p \<in> set (trajectoryPoints s'). 0 \<le> y_of p"
proof -
  obtain ys where "stored (numerical_loop (data s)
                     (0, 0, launch_vx (data s), launch_vy (data s)) (trajectoryPoints s))
                     = trajectoryPoints s @ ys"
      and "\<forall>p \<in> set ys. 0 \<le> y_of p"
    using numerical_loop_shape [of "data s" 0 0 "launch_vx (data s)" "launch_vy (data s)"
            "trajectoryPoints s"] by blast
  moreover have "trajectoryPoints s'
      = stored (numerical_loop (data s) (0, 0, launch_vx (data s), launch_vy (data s))
                  (trajectoryPoints s))"
    using calculateNumerical_stored [of s] assms(2) by simp
  ultimately show ?thesis
    using assms(1) by auto
qed

lemma calculateTrajectory_nonneg:
  assumes "calculateTrajectory s = Some (Done s')"
  shows "\<forall>p \<in> set (trajectoryPoints s'). 0 \<le> y_of p"
proof (cases "airResistance (data s)")
  case True
  then have "calculateNumerical (s\<lparr>trajectoryPoints := []\<rparr>) = Done s'"
    using assms by (simp add: calculateTrajectory_def Let_def)
  then show ?thesis
    by (rule calculateNumerical_nonneg [rotated]) simp
next
  case False
  then have "calculateAnalytical (s\<lparr>trajectoryPoints := []\<rparr>) = Some (Done s')"
    using assms by (simp add: calculateTrajectory_def Let_def)
  then show ?thesis
    by (rule calculateAnalytical_nonneg [rotated]) simp
qed

lemma reachable_nonneg:
  "reachable s \<Longrightarrow> \<forall>p \<in> set (trajectoryPoints s). 0 \<le> y_of p"
proof (induction rule: reachable.induct)
  case (constructed d)
  show ?case by (simp add: ProjectileSimulator_new_def)
next
  case (calculated s s')
  show ?case by (rule calculateTrajectory_nonneg [OF calculated.hyps(2)])
next
  case (analytical s s')
  show ?case by (rule calculateAnalytical_nonneg [OF analytical.IH analytical.hyps(2)])
next
  case (numerical s s')
  show ?case by (rule calculateNumerical_nonneg [OF numerical.IH numerical.hyps(2)])
qed

lemma fold_max_height:
  "fold (\<lambda>point maxH. if y_of point > maxH then y_of point else maxH) pts m
     = Max (insert m (y_of ` set pts))"
proof (induction pts arbitrary: m)
  case Nil
  show ?case by simp
next
  case (Cons p pts)
  have "Max (insert (if m < y_of p then y_of p else m) (y_of ` set pts))
          = Max (insert m (insert (y_of p) (y_of ` set pts)))"
  proof (cases "pts = []")
    case True
    then show ?thesis by (simp add: max_def)
  next
    case False
    then have ne: "y_of ` set pts \<noteq> {}" by simp
    have fin: "finite (y_of ` set pts)" by simp
    show ?thesis
      using ne fin by (simp add: max_def)
  qed
  then show ?case
    using Cons.IH by simp
qed

text \<open>
  Claim C6. On an empty stored trajectory the three metrics are \<open>0\<close>; on a stored
  trajectory that is not empty \<open>getMaxHeight\<close> is the maximum \<open>y\<close> over the stored points
  and \<open>getRange\<close> is the \<open>x\<close> of the last stored point. The metrics are total functions.
  (A stored trajectory is one of a reachable simulator: its points have \<open>y \<ge> 0\<close>, which
  is what makes the running maximum, started at \<open>0\<close>, the maximum of the points.)
\<close>

theorem C6_metrics_of_stored_trajectory:
  assumes "reachable s"
  shows "(trajectoryPoints s = [] \<longrightarrow>
            getMaxHeight s = 0 \<and> getRange s = 0 \<and> getFlightTime s = 0)
       \<and> (trajectoryPoints s \<noteq> [] \<longrightarrow>
            getMaxHeight s = Max (y_of ` set (trajectoryPoints s))
          \<and> getRange s = x_of (last (trajectoryPoints s)))"
proof (intro conjI impI)
  assume "trajectoryPoints s = []"
  then show "getMaxHeight s = 0" "getRange s = 0" "getFlightTime s = 0"
    by (simp_all add: getMaxHeight_def getRange_def getFlightTime_def)
next
  assume ne: "trajectoryPoints s \<noteq> []"
  then show "getRange s = x_of (last (trajectoryPoints s))"
    by (simp add: getRange_def)
  let ?Y = "y_of ` set (trajectoryPoints s)"
  have fin: "finite ?Y" and ne': "?Y \<noteq> {}"
    using ne by simp_all
  have "0 \<le> y_of (hd (trajectoryPoints s))"
    using reachable_nonneg [OF assms] ne by simp
  moreover have "y_of (hd (trajectoryPoints s)) \<le> Max ?Y"
    using ne by (intro Max_ge) simp_all
  ultimately have "0 \<le> Max ?Y"
    by linarith
  then have "Max (insert 0 ?Y) = Max ?Y"
    using fin ne' by (simp add: max_def)
  then show "getMaxHeight s = Max ?Y"
    by (simp add: getMaxHeight_def fold_max_height)
qed
theorem C6_metrics_of_stored_trajectory_witness:
  "reachable (ProjectileSimulator_new ProjectileData_default)
   \<and> getMaxHeight (ProjectileSimulator_new ProjectileData_default) = 0
   \<and> getRange (ProjectileSimulator_new ProjectileData_default) = 0
   \<and> getFlightTime (ProjectileSimulator_new ProjectileData_default) = 0
   \<and> reachable (flat_launch\<lparr>trajectoryPoints := [\<lparr>x_of = 0, y_of = 0\<rparr>]\<rparr>)
   \<and> getMaxHeight (flat_launch\<lparr>trajectoryPoints := [\<lparr>x_of = 0, y_of = 0\<rparr>]\<rparr>) = 0
   \<and> getRange (flat_launch\<lparr>trajectoryPoints := [\<lparr>x_of = 0, y_of = 0\<rparr>]\<rparr>) = 0"
proof -
  have r0: "reachable (ProjectileSimulator_new ProjectileData_default)"
    by (rule reachable.constructed)
  have "reachable flat_launch"
    unfolding flat_launch_def by (rule reachable.constructed)
  moreover have "calculateTrajectory flat_launch
      = Some (Done (flat_launch\<lparr>trajectoryPoints := [\<lparr>x_of = 0, y_of = 0\<rparr>]\<rparr>))"
    using analytical_at_or_below_horizontal [of flat_launch] flat_launch_facts by simp
  ultimately have r1: "reachable (flat_launch\<lparr>trajectoryPoints := [\<lparr>x_of = 0, y_of = 0\<rparr>]\<rparr>)"
    by (rule reachable.calculated)
  show ?thesis
    using C6_metrics_of_stored_trajectory [OF r0] C6_metrics_of_stored_trajectory [OF r1] r0 r1
    by (simp add: ProjectileSimulator_new_def)
qed

lemma calculateAnalytical_data:
  assumes "calculateAnalytical s = Some r"
  shows "data (stored r) = data s"
  using assms unfolding calculateAnalytical_loop
  by (cases "analytical_loop (launch_vx (data s)) (launch_vy (data s)) (gravity (data s))
             (ieee_div (2 * launch_vy (data s)) (gravity (data s))) 0 (trajectoryPoints s)")
     auto

lemma calculateNumerical_data: "data (stored (calculateNumerical s)) = data s"
  by (cases "numerical_loop (data s)
               (0, 0, initialVelocity (data s) * cos (angle (data s) * PI / 180),
                initialVelocity (data s) * sin (angle (data s) * PI / 180))
               (trajectoryPoints s)")
     (simp_all add: calculateNumerical_def Let_def)

lemma calculateTrajectory_data:
  assumes "calculateTrajectory s = Some r"
  shows "data (stored r) = data s"
proof (cases "airResistance (data s)")
  case True
  then have "r = calculateNumerical (s\<lparr>trajectoryPoints := []\<rparr>)"
    using assms by (simp add: calculateTrajectory_drag)
  then show ?thesis
    using calculateNumerical_data [of "s\<lparr>trajectoryPoints := []\<rparr>"] by simp
next
  case False
  then have "calculateAnalytical (s\<lparr>trajectoryPoints := []\<rparr>) = Some r"
    using assms by (simp add: calculateTrajectory_analytical)
  then show ?thesis
    using calculateAnalytical_data [of "s\<lparr>trajectoryPoints := []\<rparr>" r] by simp
qed

text \<open>
  Claim C9. \<open>getFlightTime\<close> is the number of stored points times the time step of the
  path the simulator's data select: \<open>0.02\<close> (\<open>analytical_dt\<close>, the step of the
  drag-free loop) without air resistance, \<open>0.01\<close> (\<open>numerical_dt\<close>, the step of the drag
  loop) with it. \<open>calculateTrajectory\<close> selects the path by the same flag and, when it
  returns, has left the data as they are.
\<close>

theorem C9_flight_time:
  "getFlightTime s
     = real (length (trajectoryPoints s))
         * (if airResistance (data s) then numerical_dt else analytical_dt)
   \<and> calculateTrajectory s
     = (if airResistance (data s) then Some (calculateNumerical (s\<lparr>trajectoryPoints := []\<rparr>))
        else calculateAnalytical (s\<lparr>trajectoryPoints := []\<rparr>))
   \<and> (\<forall>r. calculateTrajectory s = Some r \<longrightarrow> data (stored r) = data s)"
proof -
  have "getFlightTime s
     = real (length (trajectoryPoints s))
         * (if airResistance (data s) then numerical_dt else analytical_dt)"
    by (simp add: getFlightTime_def numerical_dt_def analytical_dt_def)
  moreover have "calculateTrajectory s
     = (if airResistance (data s) then Some (calculateNumerical (s\<lparr>trajectoryPoints := []\<rparr>))
        else calculateAnalytical (s\<lparr>trajectoryPoints := []\<rparr>))"
    by (simp add: calculateTrajectory_def Let_def)
  ultimately show ?thesis
    using calculateTrajectory_data [of s] by blast
qed

theorem C9_flight_time_witness:
  "calculateTrajectory flat_launch
     = Some (Done (flat_launch\<lparr>trajectoryPoints := [\<lparr>x_of = 0, y_of = 0\<rparr>]\<rparr>))
   \<and> data (flat_launch\<lparr>trajectoryPoints := [\<lparr>x_of = 0, y_of = 0\<rparr>]\<rparr>) = data flat_launch
   \<and> getFlightTime (flat_launch\<lparr>trajectoryPoints := [\<lparr>x_of = 0, y_of = 0\<rparr>]\<rparr>) = 0.02
   \<and> calculateTrajectory flat_drag_launch
     = Some (Done (flat_drag_launch\<lparr>trajectoryPoints := [\<lparr>x_of = 0, y_of = 0\<rparr>]\<rparr>))
   \<and> getFlightTime (flat_drag_launch\<lparr>trajectoryPoints := [\<lparr>x_of = 0, y_of = 0\<rparr>]\<rparr>) = 0.01"
proof -
  have a: "calculateTrajectory flat_launch
      = Some (Done (flat_launch\<lparr>trajectoryPoints := [\<lparr>x_of = 0, y_of = 0\<rparr>]\<rparr>))"
    using analytical_at_or_below_horizontal [of flat_launch] flat_launch_facts by simp
  have b: "calculateTrajectory flat_drag_launch
      = Some (Done (flat_drag_launch\<lparr>trajectoryPoints := [\<lparr>x_of = 0, y_of = 0\<rparr>]\<rparr>))"
    using drag_at_or_below_horizontal [of flat_drag_launch] flat_drag_launch_facts by simp
  show ?thesis
    using C9_flight_time [of flat_launch]
      C9_flight_time [of "flat_launch\<lparr>trajectoryPoints := [\<lparr>x_of = 0, y_of = 0\<rparr>]\<rparr>"]
      C9_flight_time [of "flat_drag_launch\<lparr>trajectoryPoints := [\<lparr>x_of = 0, y_of = 0\<rparr>]\<rparr>"]
      flat_launch_facts(1) flat_drag_launch_facts(1)
    by (simp add: a b analytical_dt_def numerical_dt_def)
qed

end
